theory Spec2Isabelle
  imports Complex_Main "HOL-Library.Sublist"
begin

section \<open>Python values and strings\<close>

text \<open>
  A Python \<open>str\<close> is modelled as a \<open>string\<close>; a character of the model stands for a code
  point below 256. \<open>str(n)\<close> of an integer is its decimal numeral, with a minus sign for a
  negative number.
\<close>

fun str_nat :: "nat \<Rightarrow> string" where
  "str_nat n =
     (if n < 10 then [''0123456789'' ! n]
      else str_nat (n div 10) @ [''0123456789'' ! (n mod 10)])"

declare str_nat.simps [simp del]

definition str_int :: "int \<Rightarrow> string" where
  "str_int i = (if i < 0 then ''-'' @ str_nat (nat (- i)) else str_nat (nat i))"

text \<open>
  \<open>str.strip()\<close> without an argument removes the leading and the trailing characters for
  which \<open>str.isspace\<close> holds: the code points 9 to 13, 28 to 32, 133 and 160 in the range
  of the model.
\<close>

definition isspace :: "char \<Rightarrow> bool" where
  "isspace c \<longleftrightarrow>
     c \<in> set [CHR 0x09, CHR 0x0A, CHR 0x0B, CHR 0x0C, CHR 0x0D,
               CHR 0x1C, CHR 0x1D, CHR 0x1E, CHR 0x1F, CHR 0x20, CHR 0x85, CHR 0xA0]"

definition strip :: "string \<Rightarrow> string" where
  "strip s = rev (dropWhile isspace (rev (dropWhile isspace s)))"

text \<open>\<open>s.startswith(p)\<close> and \<open>sep.join(xs)\<close>.\<close>

definition startswith :: "string \<Rightarrow> string \<Rightarrow> bool" where
  "startswith s p \<longleftrightarrow> prefix p s"

fun join :: "string \<Rightarrow> string list \<Rightarrow> string" where
  "join sep [] = []"
| "join sep [x] = x"
| "join sep (x # y # ys) = x @ sep @ join sep (y # ys)"

text \<open>
  The value \<open>response.json()\<close> returns: \<open>None\<close>, a bool, an int, a float, a str, a list
  or a dict whose keys are strings. The program observes a float only through \<open>repr\<close>, so a
  float is represented by its \<open>repr\<close> text. A dict is an association list in insertion
  order, read with the first binding of a key; a dict built by the JSON decoder has
  distinct keys.
\<close>

datatype pyval =
    PyNone
  | PyBool bool
  | PyInt int
  | PyFloat string
  | PyStr string
  | PyList "pyval list"
  | PyDict "(string \<times> pyval) list"

fun type_name :: "pyval \<Rightarrow> string" where
  "type_name PyNone = ''NoneType''"
| "type_name (PyBool b) = ''bool''"
| "type_name (PyInt i) = ''int''"
| "type_name (PyFloat f) = ''float''"
| "type_name (PyStr s) = ''str''"
| "type_name (PyList xs) = ''list''"
| "type_name (PyDict d) = ''dict''"

text \<open>
  \<open>repr\<close> of a str: single quotes unless the string has a single quote and no double
  quote; the quote and the backslash are escaped, tab, newline and carriage return are
  written \<open>\t\<close>, \<open>\n\<close>, \<open>\r\<close>, and every other character that is not printable is written
  \<open>\xNN\<close>.
\<close>

definition hex2 :: "nat \<Rightarrow> string" where
  "hex2 n = [''0123456789abcdef'' ! (n div 16), ''0123456789abcdef'' ! (n mod 16)]"

definition isprintable :: "char \<Rightarrow> bool" where
  "isprintable c \<longleftrightarrow>
     (let n = (of_char c :: nat)
      in (32 \<le> n \<and> n < 127) \<or> (161 \<le> n \<and> n \<noteq> 173))"

definition repr_char :: "char \<Rightarrow> char \<Rightarrow> string" where
  "repr_char quote c =
     (if c = quote \<or> c = CHR 0x5C then [CHR 0x5C, c]
      else if c = CHR 0x09 then [CHR 0x5C, CHR ''t'']
      else if c = CHR 0x0A then [CHR 0x5C, CHR ''n'']
      else if c = CHR 0x0D then [CHR 0x5C, CHR ''r'']
      else if isprintable c then [c]
      else [CHR 0x5C, CHR ''x''] @ hex2 (of_char c))"

definition repr_str :: "string \<Rightarrow> string" where
  "repr_str s =
     (let quote = (if CHR 0x27 \<in> set s \<and> CHR 0x22 \<notin> set s then CHR 0x22 else CHR 0x27)
      in [quote] @ concat (map (repr_char quote) s) @ [quote])"

fun py_repr :: "pyval \<Rightarrow> string" where
  "py_repr PyNone = ''None''"
| "py_repr (PyBool b) = (if b then ''True'' else ''False'')"
| "py_repr (PyInt i) = str_int i"
| "py_repr (PyFloat f) = f"
| "py_repr (PyStr s) = repr_str s"
| "py_repr (PyList xs) = ''['' @ join '', '' (map py_repr xs) @ '']''"
| "py_repr (PyDict d) =
     ''{'' @ join '', '' (map (\<lambda>kv. repr_str (fst kv) @ '': '' @ py_repr (snd kv)) d) @ ''}''"

text \<open>\<open>str(v)\<close>, as an f-string formats a value: a str is itself, anything else its \<open>repr\<close>.\<close>

fun py_str :: "pyval \<Rightarrow> string" where
  "py_str (PyStr s) = s"
| "py_str v = py_repr v"

section \<open>Exceptions\<close>

text \<open>
  An exception is known to the program through the \<open>except\<close> clauses that match it and
  through \<open>str(e)\<close>. \<open>requests.exceptions.ConnectTimeout\<close> is an instance of both
  \<open>Timeout\<close> and \<open>ConnectionError\<close>. \<open>KeyboardInterrupt\<close> and \<open>SystemExit\<close> are instances of
  \<open>BaseException\<close> only, not of \<open>Exception\<close>.
\<close>

record exn =
  isinstance_Timeout :: bool
  isinstance_ConnectionError :: bool
  isinstance_Exception :: bool
  str_e :: string

text \<open>
  The exceptions the interpreter raises in the body of the loop, with the message each
  one carries (the wording of CPython 3.12). They are instances of \<open>Exception\<close>.
\<close>

definition builtin_error :: "string \<Rightarrow> exn" where
  "builtin_error m =
     \<lparr>isinstance_Timeout = False, isinstance_ConnectionError = False,
      isinstance_Exception = True, str_e = m\<rparr>"

definition KeyError :: "pyval \<Rightarrow> exn" where
  "KeyError k = builtin_error (py_repr k)"

definition IndexError :: "string \<Rightarrow> exn" where
  "IndexError m = builtin_error m"

definition TypeError :: "string \<Rightarrow> exn" where
  "TypeError m = builtin_error m"

definition quoted :: "string \<Rightarrow> string" where
  "quoted s = [CHR 0x27] @ s @ [CHR 0x27]"

definition AttributeError :: "pyval \<Rightarrow> string \<Rightarrow> exn" where
  "AttributeError obj attr =
     builtin_error (quoted (type_name obj) @ '' object has no attribute '' @ quoted attr)"

section \<open>The operations of Python the loop body applies to the decoded body\<close>

text \<open>\<open>k in obj\<close> for a str \<open>k\<close>: a key of a dict, an element of a list, a substring of a str.\<close>

fun py_in :: "string \<Rightarrow> pyval \<Rightarrow> exn + bool" where
  "py_in k (PyDict d) = Inr (map_of d k \<noteq> None)"
| "py_in k (PyList xs) = Inr (PyStr k \<in> set xs)"
| "py_in k (PyStr s) = Inr (sublist k s)"
| "py_in k v = Inl (TypeError (''argument of type '' @ quoted (type_name v) @ '' is not iterable''))"

text \<open>\<open>obj[k]\<close> for a str \<open>k\<close>.\<close>

fun getitem_str :: "pyval \<Rightarrow> string \<Rightarrow> exn + pyval" where
  "getitem_str (PyDict d) k =
     (case map_of d k of Some v \<Rightarrow> Inr v | None \<Rightarrow> Inl (KeyError (PyStr k)))"
| "getitem_str (PyList xs) k = Inl (TypeError ''list indices must be integers or slices, not str'')"
| "getitem_str (PyStr s) k =
     Inl (TypeError (''string indices must be integers, not '' @ quoted ''str''))"
| "getitem_str v k = Inl (TypeError (quoted (type_name v) @ '' object is not subscriptable''))"

text \<open>\<open>obj[0]\<close>. The keys of a decoded dict are strings, so \<open>0\<close> is never one of them.\<close>

fun getitem_0 :: "pyval \<Rightarrow> exn + pyval" where
  "getitem_0 (PyList xs) =
     (case xs of [] \<Rightarrow> Inl (IndexError ''list index out of range'') | x # _ \<Rightarrow> Inr x)"
| "getitem_0 (PyStr s) =
     (case s of [] \<Rightarrow> Inl (IndexError ''string index out of range'') | c # _ \<Rightarrow> Inr (PyStr [c]))"
| "getitem_0 (PyDict d) = Inl (KeyError (PyInt 0))"
| "getitem_0 v = Inl (TypeError (quoted (type_name v) @ '' object is not subscriptable''))"

text \<open>\<open>len(obj)\<close>.\<close>

fun py_len :: "pyval \<Rightarrow> exn + int" where
  "py_len (PyList xs) = Inr (int (length xs))"
| "py_len (PyStr s) = Inr (int (length s))"
| "py_len (PyDict d) = Inr (int (length (remdups (map fst d))))"
| "py_len v = Inl (TypeError (''object of type '' @ quoted (type_name v) @ '' has no len()''))"

text \<open>\<open>obj.strip()\<close> and \<open>obj.get(k, default)\<close>.\<close>

fun call_strip :: "pyval \<Rightarrow> exn + string" where
  "call_strip (PyStr s) = Inr (strip s)"
| "call_strip v = Inl (AttributeError v ''strip'')"

fun call_get :: "pyval \<Rightarrow> string \<Rightarrow> pyval \<Rightarrow> exn + pyval" where
  "call_get (PyDict d) k dflt =
     Inr (case map_of d k of Some v \<Rightarrow> v | None \<Rightarrow> dflt)"
| "call_get v k dflt = Inl (AttributeError v ''get'')"

section \<open>Requests, responses and the effects of a call\<close>

text \<open>
  A float argument is only passed on to the service; it is represented by the decimal
  fraction its literal denotes.
\<close>

record message =
  role :: string
  content :: string

record payload =
  payload_messages :: "message list"
  payload_model :: string
  payload_temperature :: rat
  payload_max_tokens :: int
  payload_stream :: bool

record request =
  request_url :: string
  request_headers :: "(string \<times> string) list"
  request_json :: payload
  request_timeout :: int

text \<open>
  A response is read through \<open>status_code\<close>, \<open>text\<close> (the field \<open>response_text\<close>) and
  \<open>json()\<close>, which returns the decoded body or raises. \<open>requests.post\<close> returns a response
  or raises.
\<close>

record response =
  status_code :: int
  response_text :: string
  json :: "exn + pyval"

datatype reply = Raises exn | Returns response

text \<open>
  What a call does besides returning: the requests it posts, \<open>st.warning\<close>, \<open>time.sleep\<close>.
  The last two are taken to return normally.
\<close>

datatype event = Post request | Warning string | Sleep int

text \<open>
  The \<open>return\<close> statement that ends the call, in the order of the source (lines 60, 62, 71,
  74, 82, 86, 94, 102, 110 and 112).
\<close>

datatype site =
    Ret_content
  | Ret_no_response
  | Ret_rate_limit
  | Ret_invalid_token
  | Ret_unavailable
  | Ret_status
  | Ret_timeout
  | Ret_connection
  | Ret_exception
  | Ret_fallback

text \<open>
  How an iteration ends: with a \<open>return\<close>, with \<open>continue\<close>, or with an exception that no
  \<open>except\<close> clause takes.
\<close>

datatype flow = Return site string | Continue | Propagate exn

text \<open>
  How a call ends: it returns a string from one of the \<open>return\<close> statements, or an
  exception leaves it.
\<close>

datatype outcome = Returned site string | Uncaught exn

definition API_URL :: string where
  "API_URL = ''https://router.huggingface.co/v1/chat/completions''"

section \<open>query_chat_api\<close>

text \<open>Lines 55 to 62: the branch of status 200.\<close>

definition status_200 :: "response \<Rightarrow> exn + event list \<times> flow" where
  "status_200 response =
     (case json response of
        Inl e \<Rightarrow> Inl e
      | Inr result \<Rightarrow>
          (case py_in ''choices'' result of
             Inl e \<Rightarrow> Inl e
           | Inr False \<Rightarrow> Inr ([], Return Ret_no_response ''Error: No response generated'')
           | Inr True \<Rightarrow>
               (case getitem_str result ''choices'' of
                  Inl e \<Rightarrow> Inl e
                | Inr choices \<Rightarrow>
                    (case py_len choices of
                       Inl e \<Rightarrow> Inl e
                     | Inr n \<Rightarrow>
                         if n > 0 then
                           (case getitem_0 choices of
                              Inl e \<Rightarrow> Inl e
                            | Inr choice \<Rightarrow>
                                (case getitem_str choice ''message'' of
                                   Inl e \<Rightarrow> Inl e
                                 | Inr msg \<Rightarrow>
                                     (case getitem_str msg ''content'' of
                                        Inl e \<Rightarrow> Inl e
                                      | Inr message_content \<Rightarrow>
                                          (case call_strip message_content of
                                             Inl e \<Rightarrow> Inl e
                                           | Inr stripped \<Rightarrow>
                                               Inr ([], Return Ret_content stripped)))))
                         else Inr ([], Return Ret_no_response ''Error: No response generated'')))))"

text \<open>Lines 51 to 86: the body of \<open>try\<close>, after \<open>requests.post\<close> has replied.\<close>

definition try_body :: "reply \<Rightarrow> int \<Rightarrow> int \<Rightarrow> exn + event list \<times> flow" where
  "try_body r max_retries attempt =
     (case r of
        Raises e \<Rightarrow> Inl e
      | Returns response \<Rightarrow>
          if status_code response = 200 then status_200 response
          else if status_code response = 429 then
            (if attempt < max_retries - 1 then
               (let wait_time = (attempt + 1) * 3
                in Inr ([Warning (''Rate limit hit. Waiting '' @ str_int wait_time
                                   @ '' seconds... (Attempt '' @ str_int (attempt + 1) @ ''/''
                                   @ str_int max_retries @ '')''),
                         Sleep wait_time], Continue))
             else Inr ([], Return Ret_rate_limit
                         ''Error: Rate limit exceeded. Please wait a minute and try again.''))
          else if status_code response = 401 then
            Inr ([], Return Ret_invalid_token
                   ''Error: Invalid API token. Please check your Hugging Face API key.'')
          else if status_code response = 503 then
            (if attempt < max_retries - 1 then
               Inr ([Warning (''Model is loading... Retrying in 5 seconds (Attempt ''
                              @ str_int (attempt + 1) @ ''/'' @ str_int max_retries @ '')''),
                     Sleep 5], Continue)
             else Inr ([], Return Ret_unavailable
                         ''Error: Model is currently unavailable. Try a different model.''))
          else
            (case json response of
               Inl e \<Rightarrow> Inl e
             | Inr body \<Rightarrow>
                 (case call_get body ''error'' (PyStr (response_text response)) of
                    Inl e \<Rightarrow> Inl e
                  | Inr error_msg \<Rightarrow>
                      Inr ([], Return Ret_status
                             (''Error: API returned status '' @ str_int (status_code response)
                              @ '' - '' @ py_str error_msg)))))"

text \<open>
  Lines 88 to 110: the \<open>except\<close> clauses, tried in order. The last one, \<open>except Exception\<close>,
  takes the instances of \<open>Exception\<close>; an exception that none of the three takes goes on
  to the caller.
\<close>

definition except_clauses :: "exn \<Rightarrow> int \<Rightarrow> int \<Rightarrow> event list \<times> flow" where
  "except_clauses e max_retries attempt =
     (if isinstance_Timeout e then
        (if attempt < max_retries - 1 then
           ([Warning (''Request timed out. Retrying... (Attempt '' @ str_int (attempt + 1)
                      @ ''/'' @ str_int max_retries @ '')''),
             Sleep 3], Continue)
         else ([], Return Ret_timeout ''Error: Request timed out after multiple attempts.''))
      else if isinstance_ConnectionError e then
        (if attempt < max_retries - 1 then
           ([Warning (''Connection error. Retrying... (Attempt '' @ str_int (attempt + 1)
                      @ ''/'' @ str_int max_retries @ '')''),
             Sleep 3], Continue)
         else ([], Return Ret_connection
                 ''Error: Could not connect to Hugging Face API. Check your internet connection.''))
      else if isinstance_Exception e then
        (if attempt < max_retries - 1 then
           ([Warning (''Unexpected error: '' @ str_e e @ ''. Retrying... (Attempt ''
                      @ str_int (attempt + 1) @ ''/'' @ str_int max_retries @ '')''),
             Sleep 2], Continue)
         else ([], Return Ret_exception (''Error: '' @ str_e e)))
      else ([], Propagate e))"

text \<open>One iteration of the loop after the request was posted: \<open>try\<close> with its handlers.\<close>

definition iteration :: "reply \<Rightarrow> int \<Rightarrow> int \<Rightarrow> event list \<times> flow" where
  "iteration r max_retries attempt =
     (case try_body r max_retries attempt of
        Inl e \<Rightarrow> except_clauses e max_retries attempt
      | Inr step \<Rightarrow> step)"

text \<open>
  Lines 49 to 112: \<open>for attempt in range(max_retries)\<close>, from the index \<open>attempt\<close> on, and
  the \<open>return\<close> after the loop. \<open>post\<close> is the network: the reply \<open>requests.post\<close> gives to
  the request of an attempt. The result is how the call ends and its effects in order.
\<close>

function for_attempt ::
  "(int \<Rightarrow> request \<Rightarrow> reply) \<Rightarrow> (string \<times> string) list \<Rightarrow> payload \<Rightarrow> int \<Rightarrow> int
     \<Rightarrow> outcome \<times> event list" where
  "for_attempt post headers payload max_retries attempt =
     (if attempt < max_retries then
        (let req = \<lparr>request_url = API_URL, request_headers = headers,
                     request_json = payload, request_timeout = 60\<rparr>
         in case iteration (post attempt req) max_retries attempt of
              (evs, Return s m) \<Rightarrow> (Returned s m, Post req # evs)
            | (evs, Continue) \<Rightarrow>
                (case for_attempt post headers payload max_retries (attempt + 1) of
                   (out, rest) \<Rightarrow> (out, Post req # evs @ rest))
            | (evs, Propagate e) \<Rightarrow> (Uncaught e, Post req # evs))
      else (Returned Ret_fallback ''Error: All retry attempts failed.'', []))"
  by pat_completeness auto
termination
  by (relation "measure (\<lambda>(post, headers, payload, max_retries, attempt). nat (max_retries - attempt))")
     auto

declare for_attempt.simps [simp del]

text \<open>
  Lines 22 to 112. \<open>HF_TOKEN\<close> is the value of \<open>os.environ['HF_TOKEN']\<close>, which line 8 sets
  from the module \<open>secret_api_keys\<close> when the program is loaded.
\<close>

definition query_chat_api ::
  "string \<Rightarrow> (int \<Rightarrow> request \<Rightarrow> reply) \<Rightarrow> message list \<Rightarrow> string \<Rightarrow> int \<Rightarrow> rat \<Rightarrow> int
     \<Rightarrow> outcome \<times> event list" where
  "query_chat_api HF_TOKEN post messages model max_retries temperature max_tokens =
     (let headers = [(''Authorization'', ''Bearer '' @ HF_TOKEN),
                     (''Content-Type'', ''application/json'')];
          payload = \<lparr>payload_messages = messages, payload_model = model,
                     payload_temperature = temperature, payload_max_tokens = max_tokens,
                     payload_stream = False\<rparr>
      in for_attempt post headers payload max_retries 0)"

text \<open>The parts of a result: the \<open>return\<close> statement reached, if any, and the effects.\<close>

definition return_site :: "outcome \<times> event list \<Rightarrow> site option" where
  "return_site res = (case fst res of Returned s m \<Rightarrow> Some s | Uncaught e \<Rightarrow> None)"

definition effects :: "outcome \<times> event list \<Rightarrow> event list" where
  "effects res = snd res"

section \<open>The two callers\<close>

text \<open>Lines 114 to 127.\<close>

definition generate_titles ::
  "string \<Rightarrow> (int \<Rightarrow> request \<Rightarrow> reply) \<Rightarrow> string \<Rightarrow> string \<Rightarrow> outcome \<times> event list" where
  "generate_titles HF_TOKEN post topic model =
     (let messages =
        [\<lparr>role = ''system'',
          content = ''You are a creative blog title generator. Generate exactly 10 numbered blog titles, one per line.''\<rparr>,
         \<lparr>role = ''user'',
          content = ''Generate 10 creative, attention-grabbing blog post titles about ''
            @ quoted topic
            @ ''. Target audience: beginners and tech enthusiasts. Format: numbered list 1-10, no explanations.''\<rparr>]
      in query_chat_api HF_TOKEN post messages model 3 (8 / 10) 400)"

text \<open>Lines 129 to 154.\<close>

definition generate_blog_content ::
  "string \<Rightarrow> (int \<Rightarrow> request \<Rightarrow> reply) \<Rightarrow> string \<Rightarrow> string \<Rightarrow> int \<Rightarrow> string
     \<Rightarrow> outcome \<times> event list" where
  "generate_blog_content HF_TOKEN post title keywords blog_length model =
     (let messages =
        [\<lparr>role = ''system'',
          content = ''You are a professional blog writer. Write informative, engaging, and well-structured blog posts of approximately ''
            @ str_int blog_length @ '' words.''\<rparr>,
         \<lparr>role = ''user'',
          content = ''Write a comprehensive blog post with the following specifications:''
            @ [CHR 0x0A, CHR 0x0A]
            @ ''Title: '' @ title @ [CHR 0x0A]
            @ ''Keywords to include: '' @ keywords @ [CHR 0x0A]
            @ ''Target length: '' @ str_int blog_length @ '' words'' @ [CHR 0x0A]
            @ ''Target audience: beginners'' @ [CHR 0x0A, CHR 0x0A]
            @ ''Structure your blog post with:'' @ [CHR 0x0A]
            @ ''1. An engaging introduction'' @ [CHR 0x0A]
            @ ''2. Well-organized main content with clear points'' @ [CHR 0x0A]
            @ ''3. A strong conclusion'' @ [CHR 0x0A, CHR 0x0A]
            @ ''Make it informative, easy to understand, and engaging.''\<rparr>]
      in query_chat_api HF_TOKEN post messages model 3 (7 / 10) (min (blog_length * 2) 2000))"

text \<open>
  Lines 231 to 241 and 325 to 336: what the page shows for a stored result. \<open>St_error\<close> is
  \<open>st.error\<close> with the string; the other two are the branches that show the titles in a
  text area and the blog post (title, keywords, content) in a container.
\<close>

datatype rendering =
    St_error string
  | Titles_text_area string
  | Blog_container string string string

definition display_title_results :: "string \<Rightarrow> rendering" where
  "display_title_results title_results =
     (if startswith title_results ''Error'' then St_error title_results
      else Titles_text_area title_results)"

record blog_results =
  blog_title :: string
  blog_content :: string
  blog_keywords :: string

definition display_blog_results :: "blog_results \<Rightarrow> rendering" where
  "display_blog_results b =
     (if startswith (blog_content b) ''Error'' then St_error (blog_content b)
      else Blog_container (blog_title b) (blog_keywords b) (blog_content b))"

section \<open>Reading the effects of a call\<close>

fun posts :: "event list \<Rightarrow> request list" where
  "posts [] = []"
| "posts (Post r # evs) = r # posts evs"
| "posts (Warning w # evs) = posts evs"
| "posts (Sleep n # evs) = posts evs"

fun sleeps :: "event list \<Rightarrow> int list" where
  "sleeps [] = []"
| "sleeps (Post r # evs) = sleeps evs"
| "sleeps (Warning w # evs) = sleeps evs"
| "sleeps (Sleep n # evs) = n # sleeps evs"

text \<open>The request a call posts at line 51, from the arguments of the call.\<close>

definition request_of :: "string \<Rightarrow> message list \<Rightarrow> string \<Rightarrow> rat \<Rightarrow> int \<Rightarrow> request" where
  "request_of HF_TOKEN messages model temperature max_tokens =
     \<lparr>request_url = API_URL,
      request_headers = [(''Authorization'', ''Bearer '' @ HF_TOKEN),
                         (''Content-Type'', ''application/json'')],
      request_json = \<lparr>payload_messages = messages, payload_model = model,
                       payload_temperature = temperature, payload_max_tokens = max_tokens,
                       payload_stream = False\<rparr>,
      request_timeout = 60\<rparr>"

text \<open>
  The loop gets to the attempt \<open>k\<close>: \<open>k\<close> is in \<open>range(max_retries)\<close> and every iteration
  before it ends in \<open>continue\<close>.
\<close>

definition reaches :: "(int \<Rightarrow> request \<Rightarrow> reply) \<Rightarrow> request \<Rightarrow> int \<Rightarrow> int \<Rightarrow> bool" where
  "reaches post req max_retries k \<longleftrightarrow>
     0 \<le> k \<and> k < max_retries \<and>
     (\<forall>i \<in> set [0..k - 1]. snd (iteration (post i req) max_retries i) = Continue)"

text \<open>The effects of the iterations before the attempt \<open>k\<close>.\<close>

definition effects_before :: "(int \<Rightarrow> request \<Rightarrow> reply) \<Rightarrow> request \<Rightarrow> int \<Rightarrow> int \<Rightarrow> event list" where
  "effects_before post req max_retries k =
     concat (map (\<lambda>i. Post req # fst (iteration (post i req) max_retries i)) [0..k - 1])"

text \<open>The status code of a reply, when there is one.\<close>

definition status_of :: "reply \<Rightarrow> int option" where
  "status_of r = (case r of Raises e \<Rightarrow> None | Returns response \<Rightarrow> Some (status_code response))"

text \<open>
  Whatever the network raises for a reply is an instance of \<open>Exception\<close>: the exception
  \<open>requests.post\<close> raises, or the one \<open>json()\<close> raises for the response.
\<close>

definition raises_Exceptions_only :: "reply \<Rightarrow> bool" where
  "raises_Exceptions_only r =
     (case r of
        Raises e \<Rightarrow> isinstance_Exception e
      | Returns response \<Rightarrow>
          (case json response of Inl e \<Rightarrow> isinstance_Exception e | Inr body \<Rightarrow> True))"

section \<open>Networks for the examples\<close>

text \<open>
  A network that gives the same reply to every request, one that gives the replies of a
  list in turn (and a last reply from then on), and a reply with a status code, a body and
  what \<open>json()\<close> gives for it.
\<close>

definition always :: "reply \<Rightarrow> int \<Rightarrow> request \<Rightarrow> reply" where
  "always r attempt req = r"

definition in_turn :: "reply list \<Rightarrow> reply \<Rightarrow> int \<Rightarrow> request \<Rightarrow> reply" where
  "in_turn rs r attempt req =
     (if 0 \<le> attempt \<and> nat attempt < length rs then rs ! nat attempt else r)"

text \<open>\<open>KeyboardInterrupt()\<close>: an instance of \<open>BaseException\<close> only, with an empty \<open>str\<close>.\<close>

definition KeyboardInterrupt :: exn where
  "KeyboardInterrupt =
     \<lparr>isinstance_Timeout = False, isinstance_ConnectionError = False,
      isinstance_Exception = False, str_e = []\<rparr>"

definition http :: "int \<Rightarrow> string \<Rightarrow> exn + pyval \<Rightarrow> reply" where
  "http code body decoded = Returns \<lparr>status_code = code, response_text = body, json = decoded\<rparr>"

text \<open>A body of the service with one choice.\<close>

definition hello_body :: pyval where
  "hello_body = PyDict [(''id'', PyStr ''c1''),
     (''choices'', PyList [PyDict [(''index'', PyInt 0),
        (''message'', PyDict [(''role'', PyStr ''assistant''),
                              (''content'', PyStr (CHR 0x0A # ''  1. Ten Tips  '' @ [CHR 0x0A]))])]])]"

section \<open>The loop, one iteration at a time\<close>

lemma query_chat_api_loop:
  "query_chat_api tok post msgs mdl m temp mt =
     for_attempt post (request_headers (request_of tok msgs mdl temp mt))
       (request_json (request_of tok msgs mdl temp mt)) m 0"
  by (simp add: query_chat_api_def request_of_def)

lemma request_of_eq:
  "\<lparr>request_url = API_URL, request_headers = request_headers (request_of tok msgs mdl temp mt),
    request_json = request_json (request_of tok msgs mdl temp mt), request_timeout = 60\<rparr>
   = request_of tok msgs mdl temp mt"
  by (simp add: request_of_def)

lemma for_attempt_Return:
  assumes "attempt < m"
    and "req = \<lparr>request_url = API_URL, request_headers = h, request_json = p, request_timeout = 60\<rparr>"
    and "iteration (post attempt req) m attempt = (evs, Return s msg)"
  shows "for_attempt post h p m attempt = (Returned s msg, Post req # evs)"
  using assms by (subst for_attempt.simps) simp

lemma for_attempt_Propagate:
  assumes "attempt < m"
    and "req = \<lparr>request_url = API_URL, request_headers = h, request_json = p, request_timeout = 60\<rparr>"
    and "iteration (post attempt req) m attempt = (evs, Propagate e)"
  shows "for_attempt post h p m attempt = (Uncaught e, Post req # evs)"
  using assms by (subst for_attempt.simps) simp

lemma for_attempt_Continue:
  assumes "attempt < m"
    and "req = \<lparr>request_url = API_URL, request_headers = h, request_json = p, request_timeout = 60\<rparr>"
    and "iteration (post attempt req) m attempt = (evs, Continue)"
  shows "for_attempt post h p m attempt =
           (case for_attempt post h p m (attempt + 1) of
              (out, rest) \<Rightarrow> (out, Post req # evs @ rest))"
  using assms by (subst for_attempt.simps) simp

lemma for_attempt_skip:
  assumes "a \<le> k" and "k \<le> m"
    and "req = \<lparr>request_url = API_URL, request_headers = h, request_json = p, request_timeout = 60\<rparr>"
    and "\<forall>i \<in> set [a..k - 1]. snd (iteration (post i req) m i) = Continue"
  shows "for_attempt post h p m a =
           (case for_attempt post h p m k of
              (out, rest) \<Rightarrow>
                (out, concat (map (\<lambda>i. Post req # fst (iteration (post i req) m i)) [a..k - 1]) @ rest))"
  using assms
proof (induction "nat (k - a)" arbitrary: a)
  case 0
  then have "a = k" by simp
  then show ?case by (simp split: prod.splits)
next
  case (Suc n)
  then have lt: "a < k" and am: "a < m" by simp_all
  then have up: "[a..k - 1] = a # [a + 1..k - 1]" by (simp add: upto_rec1)
  have c: "snd (iteration (post a req) m a) = Continue"
    using Suc.prems(4) up by simp
  then obtain evs where it: "iteration (post a req) m a = (evs, Continue)"
    by (cases "iteration (post a req) m a") simp
  have rest: "\<forall>i \<in> set [a + 1..k - 1]. snd (iteration (post i req) m i) = Continue"
    using Suc.prems(4) up by simp
  have n: "n = nat (k - (a + 1))" using Suc.hyps(2) by simp
  have ih: "for_attempt post h p m (a + 1) =
           (case for_attempt post h p m k of
              (out, rest) \<Rightarrow>
                (out, concat (map (\<lambda>i. Post req # fst (iteration (post i req) m i)) [a + 1..k - 1]) @ rest))"
    using Suc.hyps(1)[where a = "a + 1", OF n _ Suc.prems(2) Suc.prems(3) rest] lt by simp
  show ?case
    by (simp add: for_attempt_Continue[where post = post and req = req and attempt = a, OF am Suc.prems(3) it] ih up it split: prod.splits)
qed

lemma query_chat_api_reaches:
  assumes "reaches post (request_of tok msgs mdl temp mt) m k"
    and "iteration (post k (request_of tok msgs mdl temp mt)) m k = (evs, Return s msg)"
  shows "query_chat_api tok post msgs mdl m temp mt =
           (Returned s msg, effects_before post (request_of tok msgs mdl temp mt) m k
                      @ Post (request_of tok msgs mdl temp mt) # evs)"
proof -
  let ?req = "request_of tok msgs mdl temp mt"
  have k: "0 \<le> k" "k < m" and c: "\<forall>i \<in> set [0..k - 1]. snd (iteration (post i ?req) m i) = Continue"
    using assms(1) by (simp_all add: reaches_def)
  have r: "?req = \<lparr>request_url = API_URL, request_headers = request_headers ?req,
    request_json = request_json ?req, request_timeout = 60\<rparr>"
    by (simp add: request_of_eq)
  have "for_attempt post (request_headers ?req) (request_json ?req) m k = (Returned s msg, Post ?req # evs)"
    by (rule for_attempt_Return[where post = post and attempt = k and req = ?req, OF k(2) r assms(2)])
  moreover have "k \<le> m" using k by simp
  ultimately show ?thesis
    using for_attempt_skip[where post = post and req = ?req and a = 0 and k = k and m = m, OF k(1) _ r c]
    by (simp add: query_chat_api_loop effects_before_def)
qed

lemma query_chat_api_escapes:
  assumes "reaches post (request_of tok msgs mdl temp mt) m k"
    and "iteration (post k (request_of tok msgs mdl temp mt)) m k = (evs, Propagate e)"
  shows "query_chat_api tok post msgs mdl m temp mt =
           (Uncaught e, effects_before post (request_of tok msgs mdl temp mt) m k
                      @ Post (request_of tok msgs mdl temp mt) # evs)"
proof -
  let ?req = "request_of tok msgs mdl temp mt"
  have k: "0 \<le> k" "k < m" and c: "\<forall>i \<in> set [0..k - 1]. snd (iteration (post i ?req) m i) = Continue"
    using assms(1) by (simp_all add: reaches_def)
  have r: "?req = \<lparr>request_url = API_URL, request_headers = request_headers ?req,
    request_json = request_json ?req, request_timeout = 60\<rparr>"
    by (simp add: request_of_eq)
  have "for_attempt post (request_headers ?req) (request_json ?req) m k = (Uncaught e, Post ?req # evs)"
    by (rule for_attempt_Propagate[where post = post and attempt = k and req = ?req, OF k(2) r assms(2)])
  moreover have "k \<le> m" using k by simp
  ultimately show ?thesis
    using for_attempt_skip[where post = post and req = ?req and a = 0 and k = k and m = m, OF k(1) _ r c]
    by (simp add: query_chat_api_loop effects_before_def)
qed

lemma status_200_cases:
  assumes "status_200 response = Inr (evs, fl)"
  shows "evs = [] \<and> ((\<exists>c. fl = Return Ret_content c) \<or> fl = Return Ret_no_response ''Error: No response generated'')"
  using assms unfolding status_200_def
  by (auto split: sum.splits bool.splits if_splits)

lemma try_body_events:
  assumes "try_body r m a = Inr (evs, fl)"
  shows "posts evs = [] \<and> (fl = Continue \<longrightarrow> a < m - 1)
         \<and> (\<forall>s msg. fl = Return s msg \<longrightarrow> evs = [] \<and> s \<noteq> Ret_fallback \<and> (s \<noteq> Ret_content \<longrightarrow> prefix ''Error: '' msg))
         \<and> (\<forall>e. fl \<noteq> Propagate e)"
proof (cases r)
  case (Raises e)
  then show ?thesis using assms by (simp add: try_body_def)
next
  case (Returns response)
  show ?thesis
  proof (cases "status_code response = 200")
    case True
    then have "status_200 response = Inr (evs, fl)"
      using assms Returns by (simp add: try_body_def)
    from status_200_cases[OF this] show ?thesis by auto
  next
    case False
    then show ?thesis using assms Returns
      by (auto simp: try_body_def Let_def split: if_splits sum.splits)
  qed
qed

lemma except_clauses_events:
  assumes "except_clauses e m a = (evs, fl)"
  shows "posts evs = [] \<and> (fl = Continue \<longrightarrow> a < m - 1)
         \<and> (\<forall>s msg. fl = Return s msg \<longrightarrow> evs = [] \<and> s \<noteq> Ret_fallback \<and> s \<noteq> Ret_content \<and> prefix ''Error: '' msg)
         \<and> (\<forall>e'. fl = Propagate e' \<longrightarrow> evs = [] \<and> e' = e \<and> \<not> isinstance_Timeout e
                \<and> \<not> isinstance_ConnectionError e \<and> \<not> isinstance_Exception e)"
  using assms by (auto simp: except_clauses_def split: if_splits)

lemma iteration_events:
  assumes "iteration r m a = (evs, fl)"
  shows "posts evs = [] \<and> (fl = Continue \<longrightarrow> a < m - 1)
         \<and> (\<forall>s msg. fl = Return s msg \<longrightarrow> evs = [] \<and> s \<noteq> Ret_fallback \<and> (s \<noteq> Ret_content \<longrightarrow> prefix ''Error: '' msg))
         \<and> (\<forall>e. fl = Propagate e \<longrightarrow> evs = [] \<and> try_body r m a = Inl e \<and> \<not> isinstance_Timeout e
                \<and> \<not> isinstance_ConnectionError e \<and> \<not> isinstance_Exception e)"
proof (cases "try_body r m a")
  case (Inl e)
  then have "except_clauses e m a = (evs, fl)" using assms by (simp add: iteration_def)
  from except_clauses_events[OF this] Inl show ?thesis by blast
next
  case (Inr step)
  then have "try_body r m a = Inr (evs, fl)" using assms by (simp add: iteration_def)
  from try_body_events[OF this] show ?thesis by blast
qed

lemma posts_append: "posts (xs @ ys) = posts xs @ posts ys"
  by (induction xs rule: posts.induct) simp_all

lemma sleeps_append: "sleeps (xs @ ys) = sleeps xs @ sleeps ys"
  by (induction xs rule: sleeps.induct) simp_all

lemma for_attempt_invariant:
  assumes "req = \<lparr>request_url = API_URL, request_headers = h, request_json = p, request_timeout = 60\<rparr>"
    and "for_attempt post h p m a = (out, evs)"
  shows "set (posts evs) \<subseteq> {req} \<and> int (length (posts evs)) \<le> max 0 (m - a)
         \<and> (\<forall>s msg. out = Returned s msg \<longrightarrow>
               (s \<noteq> Ret_content \<longrightarrow> prefix ''Error: '' msg) \<and> (a < m \<longrightarrow> s \<noteq> Ret_fallback))
         \<and> (\<forall>e. out = Uncaught e \<longrightarrow>
               (\<exists>i. a \<le> i \<and> i < m \<and> try_body (post i req) m i = Inl e)
               \<and> \<not> isinstance_Timeout e \<and> \<not> isinstance_ConnectionError e
               \<and> \<not> isinstance_Exception e)"
  using assms
proof (induction post h p m a arbitrary: out evs rule: for_attempt.induct)
  case (1 post h p m a)
  show ?case
  proof (cases "a < m")
    case False
    then show ?thesis using "1.prems"(2) by (subst (asm) for_attempt.simps) auto
  next
    case am: True
    obtain ev fl where it: "iteration (post a req) m a = (ev, fl)"
      by (cases "iteration (post a req) m a") auto
    note facts = iteration_events[OF it]
    show ?thesis
    proof (cases fl)
      case (Return s' msg')
      have "for_attempt post h p m a = (Returned s' msg', Post req # ev)"
        using for_attempt_Return[where post = post and attempt = a and req = req, OF am "1.prems"(1)] it Return
        by simp
      then have "out = Returned s' msg'" "evs = Post req # ev" using "1.prems"(2) by simp_all
      then show ?thesis using facts Return am by simp
    next
      case (Propagate e)
      have "for_attempt post h p m a = (Uncaught e, Post req # ev)"
        using for_attempt_Propagate[where post = post and attempt = a and req = req, OF am "1.prems"(1)] it Propagate
        by simp
      then have eq: "out = Uncaught e" "evs = Post req # ev" using "1.prems"(2) by simp_all
      have "\<exists>i. a \<le> i \<and> i < m \<and> try_body (post i req) m i = Inl e"
        using facts Propagate am by (intro exI[of _ a]) simp
      then show ?thesis using eq facts Propagate am by simp
    next
      case Continue
      obtain out' rest where nxt: "for_attempt post h p m (a + 1) = (out', rest)"
        by (cases "for_attempt post h p m (a + 1)") auto
      have "for_attempt post h p m a = (out', Post req # ev @ rest)"
        using for_attempt_Continue[where post = post and attempt = a and req = req, OF am "1.prems"(1)] it Continue nxt
        by simp
      then have eq: "out = out'" "evs = Post req # ev @ rest" using "1.prems"(2) by simp_all
      have ih: "set (posts rest) \<subseteq> {req} \<and> int (length (posts rest)) \<le> max 0 (m - (a + 1))
         \<and> (\<forall>s msg. out' = Returned s msg \<longrightarrow>
               (s \<noteq> Ret_content \<longrightarrow> prefix ''Error: '' msg) \<and> (a + 1 < m \<longrightarrow> s \<noteq> Ret_fallback))
         \<and> (\<forall>e. out' = Uncaught e \<longrightarrow>
               (\<exists>i. a + 1 \<le> i \<and> i < m \<and> try_body (post i req) m i = Inl e)
               \<and> \<not> isinstance_Timeout e \<and> \<not> isinstance_ConnectionError e
               \<and> \<not> isinstance_Exception e)"
        by (rule "1.IH"[OF am "1.prems"(1) it[symmetric] Continue "1.prems"(1) nxt])
      have lt: "a + 1 < m" using facts Continue by simp
      have p: "set (posts evs) \<subseteq> {req} \<and> int (length (posts evs)) \<le> max 0 (m - a)"
        using ih eq facts am by (simp add: posts_append)
      have r: "\<forall>s msg. out = Returned s msg \<longrightarrow>
               (s \<noteq> Ret_content \<longrightarrow> prefix ''Error: '' msg) \<and> (a < m \<longrightarrow> s \<noteq> Ret_fallback)"
        using ih eq lt by simp
      have u: "\<forall>e. out = Uncaught e \<longrightarrow>
               (\<exists>i. a \<le> i \<and> i < m \<and> try_body (post i req) m i = Inl e)
               \<and> \<not> isinstance_Timeout e \<and> \<not> isinstance_ConnectionError e
               \<and> \<not> isinstance_Exception e"
      proof (intro allI impI)
        fix e assume "out = Uncaught e"
        then have o: "out' = Uncaught e" using eq by simp
        with ih obtain i where "a + 1 \<le> i" "i < m" "try_body (post i req) m i = Inl e" by blast
        then have "\<exists>i. a \<le> i \<and> i < m \<and> try_body (post i req) m i = Inl e"
          by (intro exI[of _ i]) simp
        with ih o show "(\<exists>i. a \<le> i \<and> i < m \<and> try_body (post i req) m i = Inl e)
               \<and> \<not> isinstance_Timeout e \<and> \<not> isinstance_ConnectionError e
               \<and> \<not> isinstance_Exception e" by blast
      qed
      show ?thesis using p r u by blast
    qed
  qed
qed

lemma effects_before_0: "effects_before post req m 0 = []"
  by (simp add: effects_before_def)

lemma reaches_0: "0 < m \<Longrightarrow> reaches post req m 0"
  by (simp add: reaches_def)

section \<open>HTTP 401\<close>

text \<open>
  C3: for every \<open>max_retries\<close> of at least 1, when the first attempt gets the status 401 the
  call returns the message about the invalid API token after one request, with no warning
  and no wait, whatever \<open>max_retries\<close> is.
\<close>

theorem invalid_token_one_attempt:
  assumes "1 \<le> max_retries"
    and "status_of (post 0 (request_of HF_TOKEN messages mdl temperature max_tokens)) = Some 401"
  shows "query_chat_api HF_TOKEN post messages mdl max_retries temperature max_tokens =
           (Returned Ret_invalid_token
            ''Error: Invalid API token. Please check your Hugging Face API key.'',
            [Post (request_of HF_TOKEN messages mdl temperature max_tokens)])"
proof -
  let ?req = "request_of HF_TOKEN messages mdl temperature max_tokens"
  have r: "reaches post ?req max_retries 0" using assms(1) by (simp add: reaches_0)
  have "iteration (post 0 ?req) max_retries 0 =
          ([], Return Ret_invalid_token ''Error: Invalid API token. Please check your Hugging Face API key.'')"
    using assms(2) by (auto simp: status_of_def iteration_def try_body_def split: reply.splits)
  from query_chat_api_reaches[OF r this] show ?thesis by (simp add: effects_before_0)
qed

theorem invalid_token_one_attempt_witness:
  "(1::int) \<le> 5 \<and> status_of (always (http 401 ''{}'' (Inr (PyDict []))) 0 (request_of ''hf_x'' [] ''m'' (7 / 10) 500)) = Some 401
   \<and> query_chat_api ''hf_x'' (always (http 401 ''{}'' (Inr (PyDict [])))) [] ''m'' 5 (7 / 10) 500 =
           (Returned Ret_invalid_token
            ''Error: Invalid API token. Please check your Hugging Face API key.'',
            [Post (request_of ''hf_x'' [] ''m'' (7 / 10) 500)])"
proof -
  have h1: "(1::int) \<le> 5" by simp
  have h2: "status_of (always (http 401 ''{}'' (Inr (PyDict []))) 0 (request_of ''hf_x'' [] ''m'' (7 / 10) 500)) = Some 401"
    by (simp add: status_of_def always_def http_def)
  show ?thesis
    using h1 h2 invalid_token_one_attempt[where post = "always (http 401 ''{}'' (Inr (PyDict [])))", OF h1 h2]
    by simp
qed

section \<open>HTTP 429 on every attempt\<close>

lemma iteration_429:
  assumes "status_of r = Some 429"
  shows "iteration r m a =
           (if a < m - 1 then
              ([Warning (''Rate limit hit. Waiting '' @ str_int ((a + 1) * 3)
                         @ '' seconds... (Attempt '' @ str_int (a + 1) @ ''/'' @ str_int m @ '')''),
                Sleep ((a + 1) * 3)], Continue)
            else ([], Return Ret_rate_limit
                        ''Error: Rate limit exceeded. Please wait a minute and try again.''))"
  using assms by (auto simp: status_of_def iteration_def try_body_def Let_def split: reply.splits)

text \<open>
  C4: for every \<open>max_retries\<close> of at least 1, when every attempt gets the status 429 the call
  returns the message that the rate limit is exceeded after \<open>max_retries\<close> requests; between
  two requests it warns and waits \<open>(attempt + 1) * 3\<close>, so the waits are 3, 6, 9, ..., and
  there are \<open>max_retries - 1\<close> of them.
\<close>

theorem rate_limit_every_attempt:
  assumes "1 \<le> max_retries"
    and "\<forall>i \<in> set [0..max_retries - 1].
           status_of (post i (request_of HF_TOKEN messages mdl temperature max_tokens)) = Some 429"
  shows "query_chat_api HF_TOKEN post messages mdl max_retries temperature max_tokens =
           (Returned Ret_rate_limit
            ''Error: Rate limit exceeded. Please wait a minute and try again.'',
            concat (map (\<lambda>attempt.
                      [Post (request_of HF_TOKEN messages mdl temperature max_tokens),
                       Warning (''Rate limit hit. Waiting '' @ str_int ((attempt + 1) * 3)
                                @ '' seconds... (Attempt '' @ str_int (attempt + 1) @ ''/''
                                @ str_int max_retries @ '')''),
                       Sleep ((attempt + 1) * 3)]) [0..max_retries - 2])
            @ [Post (request_of HF_TOKEN messages mdl temperature max_tokens)])
         \<and> length (posts (effects (query_chat_api HF_TOKEN post messages mdl max_retries temperature max_tokens)))
             = nat max_retries
         \<and> sleeps (effects (query_chat_api HF_TOKEN post messages mdl max_retries temperature max_tokens))
             = map (\<lambda>attempt. (attempt + 1) * 3) [0..max_retries - 2]
         \<and> length (sleeps (effects
               (query_chat_api HF_TOKEN post messages mdl max_retries temperature max_tokens)))
             = nat (max_retries - 1)"
proof -
  let ?req = "request_of HF_TOKEN messages mdl temperature max_tokens"
  let ?k = "max_retries - 1"
  define round where "round = (\<lambda>attempt.
                      [Post ?req,
                       Warning (''Rate limit hit. Waiting '' @ str_int ((attempt + 1) * 3)
                                @ '' seconds... (Attempt '' @ str_int (attempt + 1) @ ''/''
                                @ str_int max_retries @ '')''),
                       Sleep ((attempt + 1) * 3)])"
  have st: "status_of (post i ?req) = Some 429" if "0 \<le> i" "i \<le> ?k" for i
    using assms(2) that by simp
  have early: "iteration (post i ?req) max_retries i = (tl (round i), Continue)"
    if "0 \<le> i" "i < ?k" for i
    using st[of i] that by (simp add: iteration_429 round_def)
  have final: "iteration (post ?k ?req) max_retries ?k =
      ([], Return Ret_rate_limit ''Error: Rate limit exceeded. Please wait a minute and try again.'')"
    using st[of ?k] assms(1) by (simp add: iteration_429)
  have r: "reaches post ?req max_retries ?k"
    using assms(1) early by (simp add: reaches_def)
  have k2: "max_retries - 1 - 1 = max_retries - 2" by simp
  have "Post ?req # fst (iteration (post i ?req) max_retries i) = round i"
    if "i \<in> set [0..max_retries - 2]" for i
  proof -
    from that have "0 \<le> i" "i < ?k" by simp_all
    from early[OF this] show ?thesis by (simp add: round_def)
  qed
  then have "map (\<lambda>i. Post ?req # fst (iteration (post i ?req) max_retries i)) [0..max_retries - 2]
          = map round [0..max_retries - 2]"
    by (rule map_cong[OF refl])
  then have before: "effects_before post ?req max_retries ?k = concat (map round [0..max_retries - 2])"
    unfolding effects_before_def k2 by (rule arg_cong)
  have res: "query_chat_api HF_TOKEN post messages mdl max_retries temperature max_tokens =
           (Returned Ret_rate_limit
            ''Error: Rate limit exceeded. Please wait a minute and try again.'',
            concat (map round [0..max_retries - 2]) @ [Post ?req])"
    unfolding query_chat_api_reaches[OF r final] before by simp
  have cnt: "length (posts (concat (map round xs))) = length xs" for xs
    by (induction xs) (simp_all add: round_def posts_append)
  have sl: "sleeps (concat (map round xs)) = map (\<lambda>attempt. (attempt + 1) * 3) xs" for xs
    by (induction xs) (simp_all add: round_def sleeps_append)
  have len: "length [0..max_retries - 2] + 1 = nat max_retries" using assms(1) by simp
  have c1: "length (posts (effects (query_chat_api HF_TOKEN post messages mdl max_retries temperature max_tokens)))
             = nat max_retries"
    unfolding res effects_def using len by (simp add: posts_append cnt)
  have c2: "sleeps (effects (query_chat_api HF_TOKEN post messages mdl max_retries temperature max_tokens))
             = map (\<lambda>attempt. (attempt + 1) * 3) [0..max_retries - 2]"
    unfolding res effects_def by (simp add: sleeps_append sl)
  have c3: "length (sleeps (effects
               (query_chat_api HF_TOKEN post messages mdl max_retries temperature max_tokens)))
             = nat (max_retries - 1)"
    unfolding c2 using assms(1) by simp
  show ?thesis
    using res c1 c2 c3 unfolding round_def by blast
qed


theorem rate_limit_every_attempt_witness:
  "(1::int) \<le> 3
   \<and> map (\<lambda>i. status_of (always (http 429 ''busy'' (Inl (builtin_error ''Expecting value''))) i
                       (request_of ''hf_x'' [] ''m'' (7 / 10) 500))) [0..3 - 1]
       = [Some 429, Some 429, Some 429]
   \<and> query_chat_api ''hf_x'' (always (http 429 ''busy'' (Inl (builtin_error ''Expecting value''))))
         [] ''m'' 3 (7 / 10) 500 =
           (Returned Ret_rate_limit
            ''Error: Rate limit exceeded. Please wait a minute and try again.'',
            [Post (request_of ''hf_x'' [] ''m'' (7 / 10) 500),
             Warning ''Rate limit hit. Waiting 3 seconds... (Attempt 1/3)'',
             Sleep 3,
             Post (request_of ''hf_x'' [] ''m'' (7 / 10) 500),
             Warning ''Rate limit hit. Waiting 6 seconds... (Attempt 2/3)'',
             Sleep 6,
             Post (request_of ''hf_x'' [] ''m'' (7 / 10) 500)])
   \<and> sleeps (effects (query_chat_api ''hf_x''
         (always (http 429 ''busy'' (Inl (builtin_error ''Expecting value'')))) [] ''m'' 3 (7 / 10) 500))
       = [3, 6]"
proof -
  have h1: "(1::int) \<le> 3" by simp
  have h2: "\<forall>i \<in> set [0..3 - 1].
          status_of (always (http 429 ''busy'' (Inl (builtin_error ''Expecting value''))) i
                       (request_of ''hf_x'' [] ''m'' (7 / 10) 500)) = Some 429"
    by (simp add: status_of_def always_def http_def)
  have up: "[0..(3::int) - 2] = [0, 1]" by (simp add: upto.simps)
  have h3: "map (\<lambda>i. status_of (always (http 429 ''busy'' (Inl (builtin_error ''Expecting value''))) i
                       (request_of ''hf_x'' [] ''m'' (7 / 10) 500))) [0..3 - 1]
       = [Some 429, Some 429, Some 429]"
    by (simp add: status_of_def always_def http_def upto.simps)
  show ?thesis
    using h1 h3
      rate_limit_every_attempt[where post = "always (http 429 ''busy'' (Inl (builtin_error ''Expecting value'')))"
        and max_retries = 3 and HF_TOKEN = "''hf_x''" and messages = "[]" and mdl = "''m''"
        and temperature = "7 / 10" and max_tokens = 500, OF h1 h2]
    unfolding up by (simp add: str_int_def str_nat.simps effects_def)
qed

section \<open>HTTP 200\<close>

text \<open>
  What \<open>strip\<close> removes is whitespace at both ends, and what it leaves neither starts nor
  ends with whitespace.
\<close>

lemma strip_decomposition:
  "s = takeWhile isspace s @ strip s @ rev (takeWhile isspace (rev (dropWhile isspace s)))"
proof -
  let ?t = "dropWhile isspace s"
  have "rev ?t = takeWhile isspace (rev ?t) @ dropWhile isspace (rev ?t)" by simp
  then have "rev (rev ?t) = rev (takeWhile isspace (rev ?t) @ dropWhile isspace (rev ?t))"
    by (rule arg_cong)
  then have t: "?t = strip s @ rev (takeWhile isspace (rev ?t))"
    unfolding strip_def rev_append rev_rev_ident .
  have "s = takeWhile isspace s @ ?t" by simp
  then show ?thesis using t by metis
qed

lemma strip_ends:
  assumes "strip s \<noteq> []"
  shows "\<not> isspace (hd (strip s)) \<and> \<not> isspace (last (strip s))"
proof -
  let ?t = "dropWhile isspace s"
  let ?u = "dropWhile isspace (rev ?t)"
  have u: "?u \<noteq> []" using assms by (simp add: strip_def)
  have t: "?t \<noteq> []"
  proof
    assume "?t = []"
    then have "?u = []" by (simp only: rev.simps dropWhile.simps)
    with u show False by simp
  qed
  have l: "\<not> isspace (last (strip s))"
    using u hd_dropWhile[of isspace "rev ?t"] by (simp add: strip_def last_rev)
  have "rev ?t = takeWhile isspace (rev ?t) @ ?u" by simp
  then have "rev (rev ?t) = rev (takeWhile isspace (rev ?t) @ ?u)" by (rule arg_cong)
  then have "?t = strip s @ rev (takeWhile isspace (rev ?t))"
    unfolding strip_def rev_append rev_rev_ident .
  then have "hd ?t = hd (strip s)" using assms by (metis hd_append2)
  moreover have "\<not> isspace (hd ?t)" using t hd_dropWhile[of isspace s] by simp
  ultimately show ?thesis using l by simp
qed

lemma iteration_content:
  assumes "status_code response = 200"
    and "json response = Inr (PyDict body)"
    and "map_of body ''choices'' = Some (PyList (PyDict choice # others))"
    and "map_of choice ''message'' = Some (PyDict message)"
    and "map_of message ''content'' = Some (PyStr message_content)"
  shows "iteration (Returns response) m a = ([], Return Ret_content (strip message_content))"
  using assms by (simp add: iteration_def try_body_def status_200_def)

lemma iteration_no_response:
  assumes "status_code response = 200"
    and "json response = Inr (PyDict body)"
    and "map_of body ''choices'' = None \<or> map_of body ''choices'' = Some (PyList [])"
  shows "iteration (Returns response) m a = ([], Return Ret_no_response ''Error: No response generated'')"
  using assms by (auto simp: iteration_def try_body_def status_200_def)

text \<open>
  C1, as amended: when an attempt the loop gets to has the status 200 and a body that decodes
  to a dict whose \<open>choices\<close> is a list that starts with a dict, whose \<open>message\<close> is a dict,
  whose \<open>content\<close> is a str, the call returns that str stripped, with nothing after the
  request of that attempt; and when the body decodes to a dict with no \<open>choices\<close> or with
  an empty list there, the call returns "Error: No response generated", again with nothing
  after the request.
\<close>

theorem content_of_first_choice:
  assumes "reaches post (request_of HF_TOKEN messages mdl temperature max_tokens) max_retries k"
    and "post k (request_of HF_TOKEN messages mdl temperature max_tokens) = Returns response"
    and "status_code response = 200"
    and "json response = Inr (PyDict body)"
  shows "(\<forall>choice others message message_content.
            map_of body ''choices'' = Some (PyList (PyDict choice # others))
            \<and> map_of choice ''message'' = Some (PyDict message)
            \<and> map_of message ''content'' = Some (PyStr message_content)
            \<longrightarrow> query_chat_api HF_TOKEN post messages mdl max_retries temperature max_tokens =
                  (Returned Ret_content (strip message_content),
                   effects_before post (request_of HF_TOKEN messages mdl temperature max_tokens) max_retries k
                   @ [Post (request_of HF_TOKEN messages mdl temperature max_tokens)]))
         \<and> (map_of body ''choices'' = None \<or> map_of body ''choices'' = Some (PyList [])
            \<longrightarrow> query_chat_api HF_TOKEN post messages mdl max_retries temperature max_tokens =
                  (Returned Ret_no_response ''Error: No response generated'',
                   effects_before post (request_of HF_TOKEN messages mdl temperature max_tokens) max_retries k
                   @ [Post (request_of HF_TOKEN messages mdl temperature max_tokens)]))"
proof (intro conjI allI impI)
  fix choice others message message_content
  assume "map_of body ''choices'' = Some (PyList (PyDict choice # others))
            \<and> map_of choice ''message'' = Some (PyDict message)
            \<and> map_of message ''content'' = Some (PyStr message_content)"
  then have "iteration (post k (request_of HF_TOKEN messages mdl temperature max_tokens)) max_retries k
               = ([], Return Ret_content (strip message_content))"
    using assms(2-4) by (simp add: iteration_content)
  from query_chat_api_reaches[OF assms(1) this]
  show "query_chat_api HF_TOKEN post messages mdl max_retries temperature max_tokens =
                  (Returned Ret_content (strip message_content),
                   effects_before post (request_of HF_TOKEN messages mdl temperature max_tokens) max_retries k
                   @ [Post (request_of HF_TOKEN messages mdl temperature max_tokens)])" .
next
  assume "map_of body ''choices'' = None \<or> map_of body ''choices'' = Some (PyList [])"
  then have "iteration (post k (request_of HF_TOKEN messages mdl temperature max_tokens)) max_retries k
               = ([], Return Ret_no_response ''Error: No response generated'')"
    using assms(2-4) by (simp add: iteration_no_response)
  from query_chat_api_reaches[OF assms(1) this]
  show "query_chat_api HF_TOKEN post messages mdl max_retries temperature max_tokens =
                  (Returned Ret_no_response ''Error: No response generated'',
                   effects_before post (request_of HF_TOKEN messages mdl temperature max_tokens) max_retries k
                   @ [Post (request_of HF_TOKEN messages mdl temperature max_tokens)])" .
qed

theorem content_of_first_choice_witness:
  "reaches (in_turn [http 503 ''loading'' (Inl (builtin_error ''Expecting value'')),
                     http 200 ''...'' (Inr hello_body)] (Raises (builtin_error ''closed'')))
     (request_of ''hf_x'' [] ''m'' (7 / 10) 500) 3 1
   \<and> query_chat_api ''hf_x''
         (in_turn [http 503 ''loading'' (Inl (builtin_error ''Expecting value'')),
                   http 200 ''...'' (Inr hello_body)] (Raises (builtin_error ''closed'')))
         [] ''m'' 3 (7 / 10) 500 =
       (Returned Ret_content ''1. Ten Tips'',
        [Post (request_of ''hf_x'' [] ''m'' (7 / 10) 500),
         Warning ''Model is loading... Retrying in 5 seconds (Attempt 1/3)'',
         Sleep 5,
         Post (request_of ''hf_x'' [] ''m'' (7 / 10) 500)])
   \<and> query_chat_api ''hf_x'' (always (http 200 ''{}'' (Inr (PyDict [])))) [] ''m'' 3 (7 / 10) 500 =
       (Returned Ret_no_response ''Error: No response generated'',
        [Post (request_of ''hf_x'' [] ''m'' (7 / 10) 500)])"
proof -
  let ?post = "in_turn [http 503 ''loading'' (Inl (builtin_error ''Expecting value'')),
                        http 200 ''...'' (Inr hello_body)] (Raises (builtin_error ''closed''))"
  let ?req = "request_of ''hf_x'' [] ''m'' (7 / 10) 500"
  let ?response = "\<lparr>status_code = 200, response_text = ''...'', json = Inr hello_body\<rparr>"
  let ?body = "[(''id'', PyStr ''c1''),
     (''choices'', PyList [PyDict [(''index'', PyInt 0),
        (''message'', PyDict [(''role'', PyStr ''assistant''),
                              (''content'', PyStr (CHR 0x0A # ''  1. Ten Tips  '' @ [CHR 0x0A]))])]])]"
  have it0: "iteration (?post 0 ?req) 3 0 =
      ([Warning ''Model is loading... Retrying in 5 seconds (Attempt 1/3)'', Sleep 5], Continue)"
    by (simp add: in_turn_def http_def iteration_def try_body_def str_int_def str_nat.simps)
  have r: "reaches ?post ?req 3 1"
    by (simp add: reaches_def upto.simps it0)
  have p: "?post 1 ?req = Returns ?response"
    by (simp add: in_turn_def http_def)
  have s: "status_code ?response = 200" by simp
  have j: "json ?response = Inr (PyDict ?body)" by (simp add: hello_body_def)
  have b: "effects_before ?post ?req 3 1 =
      [Post ?req, Warning ''Model is loading... Retrying in 5 seconds (Attempt 1/3)'', Sleep 5]"
    by (simp add: effects_before_def upto.simps it0)
  have st: "strip (CHR 0x0A # ''  1. Ten Tips  '' @ [CHR 0x0A]) = ''1. Ten Tips''"
    by (simp add: strip_def isspace_def)
  have one: "query_chat_api ''hf_x'' ?post [] ''m'' 3 (7 / 10) 500 =
       (Returned Ret_content ''1. Ten Tips'',
        [Post ?req, Warning ''Model is loading... Retrying in 5 seconds (Attempt 1/3)'', Sleep 5, Post ?req])"
    using content_of_first_choice[where post = ?post and k = 1 and max_retries = 3 and body = ?body,
        OF r p s j] b st
    by simp
  let ?post2 = "always (http 200 ''{}'' (Inr (PyDict [])))"
  let ?response2 = "\<lparr>status_code = 200, response_text = ''{}'', json = Inr (PyDict [])\<rparr>"
  have r2: "reaches ?post2 ?req 3 0" by (simp add: reaches_def)
  have p2: "?post2 0 ?req = Returns ?response2" by (simp add: always_def http_def)
  have s2: "status_code ?response2 = 200" by simp
  have j2: "json ?response2 = Inr (PyDict [])" by simp
  have two: "query_chat_api ''hf_x'' ?post2 [] ''m'' 3 (7 / 10) 500 =
       (Returned Ret_no_response ''Error: No response generated'', [Post ?req])"
    using content_of_first_choice[where post = ?post2 and k = 0 and max_retries = 3 and body = "[]",
        OF r2 p2 s2 j2]
    by (simp add: effects_before_def)
  show ?thesis using r one two by blast
qed

text \<open>
  The claim as it is written fails for a body with a \<open>choices\<close> list that is not empty and
  whose first element has no \<open>message\<close>: the \<open>KeyError\<close> goes to the last \<open>except\<close> clause,
  which retries twice and then returns the text of the exception. It also fails for the
  body \<open>null\<close>, which has no \<open>choices\<close>: \<open>in\<close> raises a \<open>TypeError\<close>, and the call retries.
\<close>

theorem content_of_first_choice_counterexample:
  "query_chat_api ''hf_x''
     (always (http 200 ''...'' (Inr (PyDict [(''choices'', PyList [PyDict []])]))))
     [] ''m'' 3 (7 / 10) 500 =
     (Returned Ret_exception (''Error: '' @ quoted ''message''),
      [Post (request_of ''hf_x'' [] ''m'' (7 / 10) 500),
       Warning (''Unexpected error: '' @ quoted ''message'' @ ''. Retrying... (Attempt 1/3)''),
       Sleep 2,
       Post (request_of ''hf_x'' [] ''m'' (7 / 10) 500),
       Warning (''Unexpected error: '' @ quoted ''message'' @ ''. Retrying... (Attempt 2/3)''),
       Sleep 2,
       Post (request_of ''hf_x'' [] ''m'' (7 / 10) 500)])
   \<and> return_site (query_chat_api ''hf_x'' (always (http 200 ''null'' (Inr PyNone))) [] ''m'' 3 (7 / 10) 500)
       = Some Ret_exception
   \<and> sleeps (effects (query_chat_api ''hf_x'' (always (http 200 ''null'' (Inr PyNone))) [] ''m'' 3 (7 / 10) 500))
       = [2, 2]"
  by (simp add: query_chat_api_def for_attempt.simps iteration_def try_body_def status_200_def
      except_clauses_def always_def http_def KeyError_def TypeError_def builtin_error_def
      repr_str_def repr_char_def isprintable_def quoted_def str_int_def str_nat.simps
      request_of_def return_site_def effects_def Let_def)

section \<open>Any other status\<close>

lemma iteration_other_status:
  assumes "status_code response \<notin> {200, 429, 401, 503}"
    and "json response = Inr (PyDict body)"
  shows "iteration (Returns response) m a =
           ([], Return Ret_status
                  (''Error: API returned status '' @ str_int (status_code response) @ '' - ''
                   @ py_str (case map_of body ''error'' of
                               Some v \<Rightarrow> v | None \<Rightarrow> PyStr (response_text response))))"
  using assms by (simp add: iteration_def try_body_def)

text \<open>
  The path of line 85 for a body that decodes to a dict: the call returns at once, on any
  attempt index, a message with the status code and the \<open>error\<close> entry of the dict, or the
  text of the response when the dict has no such entry.
\<close>

lemma other_status_json_object:
  assumes "reaches post (request_of HF_TOKEN messages mdl temperature max_tokens) max_retries k"
    and "post k (request_of HF_TOKEN messages mdl temperature max_tokens) = Returns response"
    and "status_code response \<notin> {200, 429, 401, 503}"
    and "json response = Inr (PyDict body)"
  shows "query_chat_api HF_TOKEN post messages mdl max_retries temperature max_tokens =
           (Returned Ret_status
            (''Error: API returned status '' @ str_int (status_code response) @ '' - ''
            @ py_str (case map_of body ''error'' of
                        Some v \<Rightarrow> v | None \<Rightarrow> PyStr (response_text response))),
            effects_before post (request_of HF_TOKEN messages mdl temperature max_tokens) max_retries k
            @ [Post (request_of HF_TOKEN messages mdl temperature max_tokens)])"
proof -
  have "iteration (post k (request_of HF_TOKEN messages mdl temperature max_tokens)) max_retries k =
           ([], Return Ret_status
                  (''Error: API returned status '' @ str_int (status_code response) @ '' - ''
                   @ py_str (case map_of body ''error'' of
                               Some v \<Rightarrow> v | None \<Rightarrow> PyStr (response_text response))))"
    unfolding assms(2) by (rule iteration_other_status[OF assms(3,4)])
  from query_chat_api_reaches[OF assms(1) this] show ?thesis .
qed

text \<open>
  C2: an attempt with a status other than 200, 429, 401 and 503 is to end the call at once,
  with a message that holds the status code and the error payload of the service, or the
  raw body of the response when the body is not JSON. Line 85 asks for \<open>response.text\<close> as
  the fallback, but only after \<open>response.json()\<close> has returned. With the status 500 and an
  HTML body on every attempt \<open>json()\<close> raises, the last \<open>except\<close> clause takes the exception,
  and the call retries twice and returns the text of the exception, with neither the
  status code nor the body in it. With the same status and the body \<open>{}\<close> the call returns
  at once, with the status code and the body.
\<close>

theorem other_status_unparseable_body:
  "query_chat_api ''hf_x''
     (always (http 500 ''<html>Internal Server Error</html>''
                (Inl (builtin_error ''Expecting value: line 1 column 1 (char 0)''))))
     [] ''m'' 3 (7 / 10) 500 =
     (Returned Ret_exception ''Error: Expecting value: line 1 column 1 (char 0)'',
      [Post (request_of ''hf_x'' [] ''m'' (7 / 10) 500),
       Warning ''Unexpected error: Expecting value: line 1 column 1 (char 0). Retrying... (Attempt 1/3)'',
       Sleep 2,
       Post (request_of ''hf_x'' [] ''m'' (7 / 10) 500),
       Warning ''Unexpected error: Expecting value: line 1 column 1 (char 0). Retrying... (Attempt 2/3)'',
       Sleep 2,
       Post (request_of ''hf_x'' [] ''m'' (7 / 10) 500)])
   \<and> query_chat_api ''hf_x'' (always (http 500 ''{}'' (Inr (PyDict [])))) [] ''m'' 3 (7 / 10) 500 =
     (Returned Ret_status ''Error: API returned status 500 - {}'',
      [Post (request_of ''hf_x'' [] ''m'' (7 / 10) 500)])"
  by (simp add: query_chat_api_def for_attempt.simps iteration_def try_body_def
      except_clauses_def always_def http_def builtin_error_def str_int_def str_nat.simps
      request_of_def Let_def)

section \<open>A single attempt\<close>

lemma iteration_503:
  assumes "status_of r = Some 503"
  shows "iteration r m a =
           (if a < m - 1 then
              ([Warning (''Model is loading... Retrying in 5 seconds (Attempt ''
                         @ str_int (a + 1) @ ''/'' @ str_int m @ '')''),
                Sleep 5], Continue)
            else ([], Return Ret_unavailable
                        ''Error: Model is currently unavailable. Try a different model.''))"
  using assms by (auto simp: status_of_def iteration_def try_body_def split: reply.splits)

lemma iteration_raised:
  assumes "try_body r m a = Inl e"
  shows "iteration r m a = except_clauses e m a"
  using assms by (simp add: iteration_def)

lemma query_chat_api_first:
  assumes "0 < max_retries"
    and "iteration (post 0 (request_of HF_TOKEN messages mdl temperature max_tokens)) max_retries 0
           = (evs, Return s msg)"
  shows "query_chat_api HF_TOKEN post messages mdl max_retries temperature max_tokens =
           (Returned s msg, Post (request_of HF_TOKEN messages mdl temperature max_tokens) # evs)"
  using query_chat_api_reaches[where post = post and k = 0, OF reaches_0[OF assms(1)] assms(2)]
  by (simp add: effects_before_0)

lemma query_chat_api_first_escapes:
  assumes "0 < max_retries"
    and "iteration (post 0 (request_of HF_TOKEN messages mdl temperature max_tokens)) max_retries 0
           = (evs, Propagate e)"
  shows "query_chat_api HF_TOKEN post messages mdl max_retries temperature max_tokens =
           (Uncaught e, Post (request_of HF_TOKEN messages mdl temperature max_tokens) # evs)"
  using query_chat_api_escapes[where post = post and k = 0, OF reaches_0[OF assms(1)] assms(2)]
  by (simp add: effects_before_0)

text \<open>
  C5: with \<open>max_retries = 1\<close> the only effect of a call is its one request, so nothing is
  waited for; and the status 429, the status 503, an exception that is a \<open>Timeout\<close>, one
  that is a \<open>ConnectionError\<close> and any other \<open>Exception\<close> raised in the body of \<open>try\<close> each
  give their final message after that request. (An exception that is none of the three
  leaves the call after that request.)
\<close>

theorem single_attempt_no_wait:
  "effects (query_chat_api HF_TOKEN post messages mdl 1 temperature max_tokens)
     = [Post (request_of HF_TOKEN messages mdl temperature max_tokens)]
   \<and> (status_of (post 0 (request_of HF_TOKEN messages mdl temperature max_tokens)) = Some 429 \<longrightarrow>
        query_chat_api HF_TOKEN post messages mdl 1 temperature max_tokens =
          (Returned Ret_rate_limit ''Error: Rate limit exceeded. Please wait a minute and try again.'',
           [Post (request_of HF_TOKEN messages mdl temperature max_tokens)]))
   \<and> (status_of (post 0 (request_of HF_TOKEN messages mdl temperature max_tokens)) = Some 503 \<longrightarrow>
        query_chat_api HF_TOKEN post messages mdl 1 temperature max_tokens =
          (Returned Ret_unavailable ''Error: Model is currently unavailable. Try a different model.'',
           [Post (request_of HF_TOKEN messages mdl temperature max_tokens)]))
   \<and> (\<forall>e. try_body (post 0 (request_of HF_TOKEN messages mdl temperature max_tokens)) 1 0 = Inl e
            \<and> isinstance_Timeout e \<longrightarrow>
        query_chat_api HF_TOKEN post messages mdl 1 temperature max_tokens =
          (Returned Ret_timeout ''Error: Request timed out after multiple attempts.'',
           [Post (request_of HF_TOKEN messages mdl temperature max_tokens)]))
   \<and> (\<forall>e. try_body (post 0 (request_of HF_TOKEN messages mdl temperature max_tokens)) 1 0 = Inl e
            \<and> \<not> isinstance_Timeout e \<and> isinstance_ConnectionError e \<longrightarrow>
        query_chat_api HF_TOKEN post messages mdl 1 temperature max_tokens =
          (Returned Ret_connection
           ''Error: Could not connect to Hugging Face API. Check your internet connection.'',
           [Post (request_of HF_TOKEN messages mdl temperature max_tokens)]))
   \<and> (\<forall>e. try_body (post 0 (request_of HF_TOKEN messages mdl temperature max_tokens)) 1 0 = Inl e
            \<and> \<not> isinstance_Timeout e \<and> \<not> isinstance_ConnectionError e \<longrightarrow>
        query_chat_api HF_TOKEN post messages mdl 1 temperature max_tokens =
          (if isinstance_Exception e then Returned Ret_exception (''Error: '' @ str_e e)
           else Uncaught e,
           [Post (request_of HF_TOKEN messages mdl temperature max_tokens)]))"
proof -
  let ?req = "request_of HF_TOKEN messages mdl temperature max_tokens"
  let ?R = "query_chat_api HF_TOKEN post messages mdl 1 temperature max_tokens"
  have first: "?R = (Returned s msg, [Post ?req])"
    if "iteration (post 0 ?req) 1 0 = ([], Return s msg)" for s msg
    using query_chat_api_first[where max_retries = 1 and post = post, OF _ that] by simp
  have escapes: "?R = (Uncaught x, [Post ?req])"
    if "iteration (post 0 ?req) 1 0 = ([], Propagate x)" for x
    using query_chat_api_first_escapes[where max_retries = 1 and post = post, OF _ that] by simp
  have a: "effects ?R = [Post ?req]"
  proof -
    obtain evs fl where it: "iteration (post 0 ?req) 1 0 = (evs, fl)"
      by (cases "iteration (post 0 ?req) 1 0") auto
    from iteration_events[OF it]
    have "evs = [] \<and> ((\<exists>s msg. fl = Return s msg) \<or> (\<exists>x. fl = Propagate x))"
      by (cases fl) auto
    with it first escapes show ?thesis by (auto simp: effects_def)
  qed
  have b: "?R = (Returned Ret_rate_limit ''Error: Rate limit exceeded. Please wait a minute and try again.'',
                 [Post ?req])"
    if "status_of (post 0 ?req) = Some 429"
    by (rule first) (simp add: iteration_429[OF that])
  have c: "?R = (Returned Ret_unavailable ''Error: Model is currently unavailable. Try a different model.'',
                 [Post ?req])"
    if "status_of (post 0 ?req) = Some 503"
    by (rule first) (simp add: iteration_503[OF that])
  have d: "?R = (Returned Ret_timeout ''Error: Request timed out after multiple attempts.'', [Post ?req])"
    if "try_body (post 0 ?req) 1 0 = Inl e \<and> isinstance_Timeout e" for e
    using that by (intro first) (simp add: iteration_raised except_clauses_def)
  have e: "?R = (Returned Ret_connection
           ''Error: Could not connect to Hugging Face API. Check your internet connection.'',
           [Post ?req])"
    if "try_body (post 0 ?req) 1 0 = Inl e \<and> \<not> isinstance_Timeout e \<and> isinstance_ConnectionError e" for e
    using that by (intro first) (simp add: iteration_raised except_clauses_def)
  have f: "?R = (if isinstance_Exception e then Returned Ret_exception (''Error: '' @ str_e e)
                 else Uncaught e, [Post ?req])"
    if "try_body (post 0 ?req) 1 0 = Inl e \<and> \<not> isinstance_Timeout e \<and> \<not> isinstance_ConnectionError e" for e
  proof (cases "isinstance_Exception e")
    case True
    have "?R = (Returned Ret_exception (''Error: '' @ str_e e), [Post ?req])"
      using that True by (intro first) (simp add: iteration_raised except_clauses_def)
    with True show ?thesis by simp
  next
    case False
    have "?R = (Uncaught e, [Post ?req])"
      using that False by (intro escapes) (simp add: iteration_raised except_clauses_def)
    with False show ?thesis by simp
  qed
  show ?thesis using a b c d e f by blast
qed

theorem single_attempt_no_wait_witness:
  "query_chat_api ''hf_x'' (always (http 429 ''busy'' (Inr (PyDict [])))) [] ''m'' 1 (7 / 10) 500 =
     (Returned Ret_rate_limit ''Error: Rate limit exceeded. Please wait a minute and try again.'',
      [Post (request_of ''hf_x'' [] ''m'' (7 / 10) 500)])
   \<and> query_chat_api ''hf_x'' (always (http 503 ''loading'' (Inr (PyDict [])))) [] ''m'' 1 (7 / 10) 500 =
     (Returned Ret_unavailable ''Error: Model is currently unavailable. Try a different model.'',
      [Post (request_of ''hf_x'' [] ''m'' (7 / 10) 500)])
   \<and> query_chat_api ''hf_x''
       (always (Raises \<lparr>isinstance_Timeout = True, isinstance_ConnectionError = False, isinstance_Exception = True,
                         str_e = ''Read timed out.''\<rparr>)) [] ''m'' 1 (7 / 10) 500 =
     (Returned Ret_timeout ''Error: Request timed out after multiple attempts.'',
      [Post (request_of ''hf_x'' [] ''m'' (7 / 10) 500)])
   \<and> query_chat_api ''hf_x''
       (always (Raises \<lparr>isinstance_Timeout = False, isinstance_ConnectionError = True, isinstance_Exception = True,
                         str_e = ''Connection refused''\<rparr>)) [] ''m'' 1 (7 / 10) 500 =
     (Returned Ret_connection
      ''Error: Could not connect to Hugging Face API. Check your internet connection.'',
      [Post (request_of ''hf_x'' [] ''m'' (7 / 10) 500)])
   \<and> query_chat_api ''hf_x''
       (always (http 200 ''<html>'' (Inl (builtin_error ''Expecting value: line 1 column 1 (char 0)''))))
       [] ''m'' 1 (7 / 10) 500 =
     (Returned Ret_exception ''Error: Expecting value: line 1 column 1 (char 0)'',
      [Post (request_of ''hf_x'' [] ''m'' (7 / 10) 500)])"
proof -
  let ?req = "request_of ''hf_x'' [] ''m'' (7 / 10) 500"
  let ?p1 = "always (http 429 ''busy'' (Inr (PyDict [])))"
  let ?p2 = "always (http 503 ''loading'' (Inr (PyDict [])))"
  let ?e3 = "\<lparr>isinstance_Timeout = True, isinstance_ConnectionError = False, isinstance_Exception = True,
              str_e = ''Read timed out.''\<rparr>"
  let ?e4 = "\<lparr>isinstance_Timeout = False, isinstance_ConnectionError = True, isinstance_Exception = True,
              str_e = ''Connection refused''\<rparr>"
  let ?e5 = "builtin_error ''Expecting value: line 1 column 1 (char 0)''"
  let ?p5 = "always (http 200 ''<html>'' (Inl ?e5))"
  have h1: "status_of (?p1 0 ?req) = Some 429" by (simp add: status_of_def always_def http_def)
  have h2: "status_of (?p2 0 ?req) = Some 503" by (simp add: status_of_def always_def http_def)
  have h3: "try_body (always (Raises ?e3) 0 ?req) 1 0 = Inl ?e3 \<and> isinstance_Timeout ?e3"
    by (simp add: always_def try_body_def)
  have h4: "try_body (always (Raises ?e4) 0 ?req) 1 0 = Inl ?e4 \<and> \<not> isinstance_Timeout ?e4
            \<and> isinstance_ConnectionError ?e4"
    by (simp add: always_def try_body_def)
  have h5: "try_body (?p5 0 ?req) 1 0 = Inl ?e5 \<and> \<not> isinstance_Timeout ?e5
            \<and> \<not> isinstance_ConnectionError ?e5"
    by (simp add: always_def http_def try_body_def status_200_def builtin_error_def)
  have s5: "str_e ?e5 = ''Expecting value: line 1 column 1 (char 0)''"
    by (simp add: builtin_error_def)
  note t1 = single_attempt_no_wait[where post = ?p1 and HF_TOKEN = "''hf_x''" and messages = "[]"
      and mdl = "''m''" and temperature = "7 / 10" and max_tokens = 500]
  note t2 = single_attempt_no_wait[where post = ?p2 and HF_TOKEN = "''hf_x''" and messages = "[]"
      and mdl = "''m''" and temperature = "7 / 10" and max_tokens = 500]
  note t3 = single_attempt_no_wait[where post = "always (Raises ?e3)" and HF_TOKEN = "''hf_x''"
      and messages = "[]" and mdl = "''m''" and temperature = "7 / 10" and max_tokens = 500]
  note t4 = single_attempt_no_wait[where post = "always (Raises ?e4)" and HF_TOKEN = "''hf_x''"
      and messages = "[]" and mdl = "''m''" and temperature = "7 / 10" and max_tokens = 500]
  note t5 = single_attempt_no_wait[where post = ?p5 and HF_TOKEN = "''hf_x''" and messages = "[]"
      and mdl = "''m''" and temperature = "7 / 10" and max_tokens = 500]
  have c1: "query_chat_api ''hf_x'' ?p1 [] ''m'' 1 (7 / 10) 500 =
     (Returned Ret_rate_limit ''Error: Rate limit exceeded. Please wait a minute and try again.'', [Post ?req])"
    using t1 h1 by blast
  have c2: "query_chat_api ''hf_x'' ?p2 [] ''m'' 1 (7 / 10) 500 =
     (Returned Ret_unavailable ''Error: Model is currently unavailable. Try a different model.'', [Post ?req])"
    using t2 h2 by blast
  have c3: "query_chat_api ''hf_x'' (always (Raises ?e3)) [] ''m'' 1 (7 / 10) 500 =
     (Returned Ret_timeout ''Error: Request timed out after multiple attempts.'', [Post ?req])"
    using t3 h3 by blast
  have c4: "query_chat_api ''hf_x'' (always (Raises ?e4)) [] ''m'' 1 (7 / 10) 500 =
     (Returned Ret_connection
      ''Error: Could not connect to Hugging Face API. Check your internet connection.'', [Post ?req])"
    using t4 h4 by blast
  have x5: "isinstance_Exception ?e5" by (simp add: builtin_error_def)
  have c5: "query_chat_api ''hf_x'' ?p5 [] ''m'' 1 (7 / 10) 500 =
     (Returned Ret_exception (''Error: '' @ str_e ?e5), [Post ?req])"
    using t5 h5 x5 by (simp del: One_nat_def)
  show ?thesis using c1 c2 c3 c4 c5 unfolding s5 by simp
qed

section \<open>Every call returns, unless an exception leaves it\<close>

lemma query_chat_api_invariant:
  assumes "query_chat_api HF_TOKEN post messages mdl max_retries temperature max_tokens = (out, evs)"
  shows "set (posts evs) \<subseteq> {request_of HF_TOKEN messages mdl temperature max_tokens}
         \<and> int (length (posts evs)) \<le> max 0 max_retries
         \<and> (\<forall>s msg. out = Returned s msg \<longrightarrow>
               (s \<noteq> Ret_content \<longrightarrow> prefix ''Error: '' msg)
               \<and> (0 < max_retries \<longrightarrow> s \<noteq> Ret_fallback))
         \<and> (\<forall>e. out = Uncaught e \<longrightarrow>
               (\<exists>i. 0 \<le> i \<and> i < max_retries
                    \<and> try_body (post i (request_of HF_TOKEN messages mdl temperature max_tokens))
                          max_retries i = Inl e)
               \<and> \<not> isinstance_Timeout e \<and> \<not> isinstance_ConnectionError e
               \<and> \<not> isinstance_Exception e)"
  using for_attempt_invariant[OF request_of_eq[symmetric] assms[unfolded query_chat_api_loop]]
  by simp

text \<open>The exceptions the interpreter raises in the body of \<open>try\<close> are instances of \<open>Exception\<close>.\<close>

lemma py_in_raises: "py_in k v = Inl e \<Longrightarrow> isinstance_Exception e"
  by (cases v) (auto simp: TypeError_def builtin_error_def)

lemma getitem_str_raises: "getitem_str v k = Inl e \<Longrightarrow> isinstance_Exception e"
  by (cases v) (auto simp: TypeError_def KeyError_def builtin_error_def split: option.splits)

lemma getitem_0_raises: "getitem_0 v = Inl e \<Longrightarrow> isinstance_Exception e"
  by (cases v)
     (auto simp: TypeError_def KeyError_def IndexError_def builtin_error_def split: list.splits)

lemma py_len_raises: "py_len v = Inl e \<Longrightarrow> isinstance_Exception e"
  by (cases v) (auto simp: TypeError_def builtin_error_def)

lemma call_strip_raises: "call_strip v = Inl e \<Longrightarrow> isinstance_Exception e"
  by (cases v) (auto simp: AttributeError_def builtin_error_def)

lemma call_get_raises: "call_get v k d = Inl e \<Longrightarrow> isinstance_Exception e"
  by (cases v) (auto simp: AttributeError_def builtin_error_def)

lemma status_200_raises:
  assumes "status_200 response = Inl e"
    and "\<forall>x. json response = Inl x \<longrightarrow> isinstance_Exception x"
  shows "isinstance_Exception e"
  using assms unfolding status_200_def
  by (auto split: sum.splits bool.splits if_splits
      dest: py_in_raises getitem_str_raises getitem_0_raises py_len_raises call_strip_raises)

lemma try_body_raises:
  assumes "try_body r m a = Inl e" and "raises_Exceptions_only r"
  shows "isinstance_Exception e"
proof (cases r)
  case (Raises x)
  then show ?thesis using assms by (simp add: try_body_def raises_Exceptions_only_def)
next
  case (Returns response)
  then have j: "\<forall>x. json response = Inl x \<longrightarrow> isinstance_Exception x"
    using assms(2) by (auto simp: raises_Exceptions_only_def)
  show ?thesis
  proof (cases "status_code response = 200")
    case True
    then have "status_200 response = Inl e" using assms(1) Returns by (simp add: try_body_def)
    from status_200_raises[OF this j] show ?thesis .
  next
    case False
    then show ?thesis using assms(1) Returns j
      by (auto simp: try_body_def Let_def split: if_splits sum.splits dest: call_get_raises)
  qed
qed

text \<open>
  C7, as amended: for every argument and every behaviour of the network in which whatever
  \<open>requests.post\<close> or \<open>json()\<close> raises is an instance of \<open>Exception\<close> (any status code, any
  body), the call returns a string, after at most \<open>max_retries\<close> requests: the content of a
  reply, or a message that starts with "Error: ". No exception leaves the call.
\<close>

theorem every_Exception_becomes_a_message:
  assumes "\<forall>i \<in> set [0..max_retries - 1].
             raises_Exceptions_only (post i (request_of HF_TOKEN messages mdl temperature max_tokens))"
  shows "\<exists>site msg evs.
           query_chat_api HF_TOKEN post messages mdl max_retries temperature max_tokens
             = (Returned site msg, evs)
           \<and> (site \<noteq> Ret_content \<longrightarrow> prefix ''Error: '' msg)
           \<and> int (length (posts evs)) \<le> max 0 max_retries"
proof -
  let ?req = "request_of HF_TOKEN messages mdl temperature max_tokens"
  obtain out evs where
    q: "query_chat_api HF_TOKEN post messages mdl max_retries temperature max_tokens = (out, evs)"
    by (cases "query_chat_api HF_TOKEN post messages mdl max_retries temperature max_tokens") auto
  note inv = query_chat_api_invariant[OF q]
  have "out \<noteq> Uncaught e" for e
  proof
    assume "out = Uncaught e"
    with inv obtain i where i: "0 \<le> i" "i < max_retries"
      and t: "try_body (post i ?req) max_retries i = Inl e"
      and n: "\<not> isinstance_Exception e"
      by blast
    from i assms have "raises_Exceptions_only (post i ?req)" by simp
    from try_body_raises[OF t this] n show False by simp
  qed
  then obtain site msg where o: "out = Returned site msg" by (cases out) auto
  with inv q show ?thesis by simp
qed

theorem every_Exception_becomes_a_message_witness:
  "query_chat_api ''hf_x'' (always (Raises (builtin_error ''boom''))) [] ''m'' 2 (7 / 10) 500
     = (Returned Ret_exception ''Error: boom'',
        [Post (request_of ''hf_x'' [] ''m'' (7 / 10) 500),
         Warning ''Unexpected error: boom. Retrying... (Attempt 1/2)'',
         Sleep 2,
         Post (request_of ''hf_x'' [] ''m'' (7 / 10) 500)])
   \<and> (\<exists>site msg evs.
         query_chat_api ''hf_x'' (always (Raises (builtin_error ''boom''))) [] ''m'' 2 (7 / 10) 500
           = (Returned site msg, evs)
         \<and> prefix ''Error: '' msg \<and> int (length (posts evs)) \<le> 2)"
proof -
  let ?post = "always (Raises (builtin_error ''boom''))"
  let ?R = "query_chat_api ''hf_x'' ?post [] ''m'' 2 (7 / 10) 500"
  have h: "\<forall>i \<in> set [0..2 - 1].
             raises_Exceptions_only (?post i (request_of ''hf_x'' [] ''m'' (7 / 10) 500))"
    by (simp add: always_def raises_Exceptions_only_def builtin_error_def)
  have v: "?R = (Returned Ret_exception ''Error: boom'',
        [Post (request_of ''hf_x'' [] ''m'' (7 / 10) 500),
         Warning ''Unexpected error: boom. Retrying... (Attempt 1/2)'',
         Sleep 2,
         Post (request_of ''hf_x'' [] ''m'' (7 / 10) 500)])"
    by (simp add: query_chat_api_def for_attempt.simps iteration_def try_body_def
        except_clauses_def always_def builtin_error_def str_int_def str_nat.simps
        request_of_def Let_def)
  from every_Exception_becomes_a_message[where post = ?post and HF_TOKEN = "''hf_x''"
      and messages = "[]" and mdl = "''m''" and max_retries = 2 and temperature = "7 / 10"
      and max_tokens = 500, OF h]
  obtain site msg evs where q: "?R = (Returned site msg, evs)"
    and p: "site \<noteq> Ret_content \<longrightarrow> prefix ''Error: '' msg"
    and n: "int (length (posts evs)) \<le> max 0 2"
    by blast
  from q v have "site = Ret_exception" by simp
  with p have "prefix ''Error: '' msg" by simp
  with q n have "\<exists>site msg evs. ?R = (Returned site msg, evs)
         \<and> prefix ''Error: '' msg \<and> int (length (posts evs)) \<le> 2"
    by auto
  with v show ?thesis by blast
qed

text \<open>
  The claim as it is written, for any raised fault, fails for a fault that is no instance
  of \<open>Exception\<close>: when \<open>requests.post\<close> raises \<open>KeyboardInterrupt\<close>, none of the three
  \<open>except\<close> clauses takes it, and it leaves the call after the first request, whatever
  \<open>max_retries\<close> is; no string is returned.
\<close>

theorem every_Exception_becomes_a_message_counterexample:
  "query_chat_api ''hf_x'' (always (Raises KeyboardInterrupt)) [] ''m'' 3 (7 / 10) 500
     = (Uncaught KeyboardInterrupt, [Post (request_of ''hf_x'' [] ''m'' (7 / 10) 500)])"
  by (simp add: query_chat_api_def for_attempt.simps iteration_def try_body_def
      except_clauses_def always_def KeyboardInterrupt_def request_of_def Let_def)

section \<open>The return after the loop\<close>




section \<open>The request of every attempt\<close>

text \<open>
  C10: the headers and the payload (\<open>messages\<close>, \<open>model\<close>, \<open>temperature\<close>, \<open>max_tokens\<close>,
  \<open>stream = False\<close>) are built from the arguments before the loop, and every request the
  call posts, on the first attempt and on every retry, carries exactly them.
\<close>

theorem same_request_every_attempt:
  "\<forall>r \<in> set (posts (effects
       (query_chat_api HF_TOKEN post messages mdl max_retries temperature max_tokens))).
     r = \<lparr>request_url = API_URL,
          request_headers = [(''Authorization'', ''Bearer '' @ HF_TOKEN),
                             (''Content-Type'', ''application/json'')],
          request_json = \<lparr>payload_messages = messages, payload_model = mdl,
                           payload_temperature = temperature, payload_max_tokens = max_tokens,
                           payload_stream = False\<rparr>,
          request_timeout = 60\<rparr>"
proof -
  obtain out evs where
    q: "query_chat_api HF_TOKEN post messages mdl max_retries temperature max_tokens = (out, evs)"
    by (cases "query_chat_api HF_TOKEN post messages mdl max_retries temperature max_tokens") auto
  from query_chat_api_invariant[OF q]
  have "set (posts evs) \<subseteq> {request_of HF_TOKEN messages mdl temperature max_tokens}" by simp
  then show ?thesis by (auto simp: q effects_def request_of_def)
qed

theorem same_request_every_attempt_witness:
  "posts (effects (query_chat_api ''hf_x'' (always (http 503 ''loading'' (Inr (PyDict []))))
            [\<lparr>role = ''user'', content = ''Hi''\<rparr>] ''m'' 3 (7 / 10) 500))
   = replicate 3
       \<lparr>request_url = API_URL,
        request_headers = [(''Authorization'', ''Bearer hf_x''),
                           (''Content-Type'', ''application/json'')],
        request_json = \<lparr>payload_messages = [\<lparr>role = ''user'', content = ''Hi''\<rparr>],
                         payload_model = ''m'', payload_temperature = 7 / 10,
                         payload_max_tokens = 500, payload_stream = False\<rparr>,
        request_timeout = 60\<rparr>"
proof -
  let ?R = "query_chat_api ''hf_x'' (always (http 503 ''loading'' (Inr (PyDict []))))
              [\<lparr>role = ''user'', content = ''Hi''\<rparr>] ''m'' 3 (7 / 10) 500"
  have len: "length (posts (effects ?R)) = 3"
    by (simp add: query_chat_api_def for_attempt.simps iteration_def try_body_def
        always_def http_def effects_def Let_def)
  have "\<forall>r \<in> set (posts (effects ?R)).
     r = \<lparr>request_url = API_URL,
          request_headers = [(''Authorization'', ''Bearer '' @ ''hf_x''),
                             (''Content-Type'', ''application/json'')],
          request_json = \<lparr>payload_messages = [\<lparr>role = ''user'', content = ''Hi''\<rparr>],
                           payload_model = ''m'', payload_temperature = 7 / 10,
                           payload_max_tokens = 500, payload_stream = False\<rparr>,
          request_timeout = 60\<rparr>"
    by (rule same_request_every_attempt)
  then have "posts (effects ?R) = replicate (length (posts (effects ?R)))
       \<lparr>request_url = API_URL,
        request_headers = [(''Authorization'', ''Bearer '' @ ''hf_x''),
                           (''Content-Type'', ''application/json'')],
        request_json = \<lparr>payload_messages = [\<lparr>role = ''user'', content = ''Hi''\<rparr>],
                         payload_model = ''m'', payload_temperature = 7 / 10,
                         payload_max_tokens = 500, payload_stream = False\<rparr>,
        request_timeout = 60\<rparr>"
    by (simp only: replicate_length_same)
  then show ?thesis unfolding len by simp
qed

section \<open>The call for a blog post\<close>

text \<open>
  C6: for every word count the call for a blog post is a call of \<open>query_chat_api\<close> with the
  temperature 0.7 and \<open>max_tokens = min(2 * word_count, 2000)\<close>; it posts at least one
  request, and every request it posts carries these two values.
\<close>

theorem blog_max_tokens:
  "(\<exists>messages.
      generate_blog_content HF_TOKEN post title kws blog_length mdl =
        query_chat_api HF_TOKEN post messages mdl 3 (7 / 10) (min (2 * blog_length) 2000))
   \<and> (\<exists>req rest. effects (generate_blog_content HF_TOKEN post title kws blog_length mdl)
                     = Post req # rest)
   \<and> (\<forall>r \<in> set (posts (effects (generate_blog_content HF_TOKEN post title kws blog_length mdl))).
         payload_max_tokens (request_json r) = min (2 * blog_length) 2000
         \<and> payload_temperature (request_json r) = 7 / 10)"
proof -
  obtain messages where
    g: "generate_blog_content HF_TOKEN post title kws blog_length mdl =
          query_chat_api HF_TOKEN post messages mdl 3 (7 / 10) (min (2 * blog_length) 2000)"
    by (simp add: generate_blog_content_def mult.commute)
  obtain out evs where
    q: "query_chat_api HF_TOKEN post messages mdl 3 (7 / 10) (min (2 * blog_length) 2000) = (out, evs)"
    by (cases "query_chat_api HF_TOKEN post messages mdl 3 (7 / 10) (min (2 * blog_length) 2000)") auto
  from query_chat_api_invariant[OF q]
  have sub: "set (posts evs) \<subseteq> {request_of HF_TOKEN messages mdl (7 / 10) (min (2 * blog_length) 2000)}"
    by simp
  have first: "\<exists>req rest. evs = Post req # rest"
    using q unfolding query_chat_api_loop
    by (subst (asm) for_attempt.simps) (auto simp: Let_def split: prod.splits flow.splits)
  have all: "\<forall>r \<in> set (posts evs).
         payload_max_tokens (request_json r) = min (2 * blog_length) 2000
         \<and> payload_temperature (request_json r) = 7 / 10"
    using sub by (auto simp: request_of_def)
  have e: "effects (generate_blog_content HF_TOKEN post title kws blog_length mdl) = evs"
    by (simp add: g q effects_def)
  have c1: "\<exists>messages.
      generate_blog_content HF_TOKEN post title kws blog_length mdl =
        query_chat_api HF_TOKEN post messages mdl 3 (7 / 10) (min (2 * blog_length) 2000)"
    using g by (rule exI)
  show ?thesis unfolding e using c1 first all by (intro conjI)
qed

theorem blog_max_tokens_witness:
  "payload_max_tokens (request_json (hd (posts (effects
      (generate_blog_content ''hf_x'' (always (http 200 ''...'' (Inr hello_body)))
         ''Ten Tips'' ''general topics'' 400 ''m''))))) = 800
   \<and> payload_max_tokens (request_json (hd (posts (effects
      (generate_blog_content ''hf_x'' (always (http 200 ''...'' (Inr hello_body)))
         ''Ten Tips'' ''general topics'' 1200 ''m''))))) = 2000
   \<and> payload_temperature (request_json (hd (posts (effects
      (generate_blog_content ''hf_x'' (always (http 200 ''...'' (Inr hello_body)))
         ''Ten Tips'' ''general topics'' 400 ''m''))))) = 7 / 10"
proof -
  let ?post = "always (http 200 ''...'' (Inr hello_body))"
  let ?E = "\<lambda>n. effects (generate_blog_content ''hf_x'' ?post ''Ten Tips'' ''general topics'' n ''m'')"
  have mem: "hd (posts (?E n)) \<in> set (posts (?E n))" for n
  proof -
    from blog_max_tokens[where post = ?post and HF_TOKEN = "''hf_x''" and title = "''Ten Tips''"
        and kws = "''general topics''" and blog_length = n and mdl = "''m''"]
    obtain req rest where "?E n = Post req # rest" by blast
    then show ?thesis by simp
  qed
  have a: "payload_max_tokens (request_json (hd (posts (?E 400)))) = min (2 * 400) 2000
           \<and> payload_temperature (request_json (hd (posts (?E 400)))) = 7 / 10"
    using blog_max_tokens[where post = ?post and HF_TOKEN = "''hf_x''" and title = "''Ten Tips''"
        and kws = "''general topics''" and blog_length = 400 and mdl = "''m''"] mem[of 400]
    by blast
  have b: "payload_max_tokens (request_json (hd (posts (?E 1200)))) = min (2 * 1200) 2000"
    using blog_max_tokens[where post = ?post and HF_TOKEN = "''hf_x''" and title = "''Ten Tips''"
        and kws = "''general topics''" and blog_length = 1200 and mdl = "''m''"] mem[of 1200]
    by blast
  show ?thesis using a b by simp
qed

section \<open>What the page makes of a result\<close>

text \<open>
  C8: every string the call returns from a \<open>return\<close> other than the one of line 60 starts
  with "Error"; the page shows a stored result with \<open>st.error\<close> exactly when the string
  starts with "Error", for the titles and for the blog post alike; so a content that
  starts with "Error" once it is stripped is shown as an error.
\<close>

theorem error_prefix_decides_display:
  "(\<forall>site msg evs.
      query_chat_api HF_TOKEN post messages mdl max_retries temperature max_tokens
        = (Returned site msg, evs)
      \<and> site \<noteq> Ret_content \<longrightarrow> startswith msg ''Error'')
   \<and> display_title_results title_results =
        (if startswith title_results ''Error'' then St_error title_results
         else Titles_text_area title_results)
   \<and> display_blog_results b =
        (if startswith (blog_content b) ''Error'' then St_error (blog_content b)
         else Blog_container (blog_title b) (blog_keywords b) (blog_content b))
   \<and> (\<forall>msg evs.
        query_chat_api HF_TOKEN post messages mdl max_retries temperature max_tokens
          = (Returned Ret_content msg, evs)
        \<and> startswith msg ''Error'' \<longrightarrow>
        display_title_results msg = St_error msg
        \<and> display_blog_results \<lparr>blog_title = title, blog_content = msg, blog_keywords = kws\<rparr>
            = St_error msg)"
proof -
  have "prefix ''Error'' msg"
    if "query_chat_api HF_TOKEN post messages mdl max_retries temperature max_tokens
          = (Returned site msg, evs)" and "site \<noteq> Ret_content" for site msg evs
  proof -
    from query_chat_api_invariant[OF that(1)] that(2) have "prefix ''Error: '' msg" by simp
    then obtain rest where "msg = ''Error: '' @ rest" by (auto simp: prefix_def)
    then have "msg = ''Error'' @ ('': '' @ rest)" by simp
    then show ?thesis unfolding prefix_def by (rule exI)
  qed
  then have a: "\<forall>site msg evs.
      query_chat_api HF_TOKEN post messages mdl max_retries temperature max_tokens
        = (Returned site msg, evs)
      \<and> site \<noteq> Ret_content \<longrightarrow> startswith msg ''Error''"
    unfolding startswith_def by blast
  have b: "display_title_results title_results =
        (if startswith title_results ''Error'' then St_error title_results
         else Titles_text_area title_results)"
    by (simp add: display_title_results_def)
  have c: "display_blog_results b =
        (if startswith (blog_content b) ''Error'' then St_error (blog_content b)
         else Blog_container (blog_title b) (blog_keywords b) (blog_content b))"
    by (simp add: display_blog_results_def)
  have d: "\<forall>msg evs.
        query_chat_api HF_TOKEN post messages mdl max_retries temperature max_tokens
          = (Returned Ret_content msg, evs)
        \<and> startswith msg ''Error'' \<longrightarrow>
        display_title_results msg = St_error msg
        \<and> display_blog_results \<lparr>blog_title = title, blog_content = msg, blog_keywords = kws\<rparr>
            = St_error msg"
    by (simp add: display_title_results_def display_blog_results_def)
  show ?thesis using a b c d by (intro conjI)
qed

theorem error_prefix_decides_display_witness:
  "generate_titles ''hf_x''
      (always (http 200 ''...''
         (Inr (PyDict [(''choices'', PyList [PyDict [(''message'',
            PyDict [(''content'', PyStr '' Errors to Avoid in Python '')])]])]))))
      ''Python'' ''m''
     = (Returned Ret_content ''Errors to Avoid in Python'',
        effects (generate_titles ''hf_x''
          (always (http 200 ''...''
             (Inr (PyDict [(''choices'', PyList [PyDict [(''message'',
                PyDict [(''content'', PyStr '' Errors to Avoid in Python '')])]])]))))
          ''Python'' ''m''))
   \<and> display_title_results ''Errors to Avoid in Python'' = St_error ''Errors to Avoid in Python''
   \<and> generate_blog_content ''hf_x''
      (always (http 200 ''...''
         (Inr (PyDict [(''choices'', PyList [PyDict [(''message'',
            PyDict [(''content'', PyStr '' Errors to Avoid in Python '')])]])]))))
      ''Python'' ''general topics'' 400 ''m''
     = (Returned Ret_content ''Errors to Avoid in Python'',
        effects (generate_blog_content ''hf_x''
          (always (http 200 ''...''
             (Inr (PyDict [(''choices'', PyList [PyDict [(''message'',
                PyDict [(''content'', PyStr '' Errors to Avoid in Python '')])]])]))))
          ''Python'' ''general topics'' 400 ''m''))
   \<and> display_blog_results
        \<lparr>blog_title = ''Python'', blog_content = ''Errors to Avoid in Python'',
         blog_keywords = ''general topics''\<rparr> = St_error ''Errors to Avoid in Python''"
proof -
  let ?post = "always (http 200 ''...''
         (Inr (PyDict [(''choices'', PyList [PyDict [(''message'',
            PyDict [(''content'', PyStr '' Errors to Avoid in Python '')])]])])))"
  have call: "query_chat_api ''hf_x'' ?post messages ''m'' 3 temperature max_tokens =
                (Returned Ret_content ''Errors to Avoid in Python'',
                 [Post (request_of ''hf_x'' messages ''m'' temperature max_tokens)])"
    for messages temperature max_tokens
    by (rule query_chat_api_first)
       (simp_all add: always_def http_def iteration_def try_body_def status_200_def strip_def isspace_def)
  have sw: "startswith ''Errors to Avoid in Python'' ''Error''"
    by (simp add: startswith_def)
  let ?G = "generate_titles ''hf_x'' ?post ''Python'' ''m''"
  obtain messages where g: "?G = query_chat_api ''hf_x'' ?post messages ''m'' 3 (8 / 10) 400"
    by (simp add: generate_titles_def)
  have G: "?G = (Returned Ret_content ''Errors to Avoid in Python'', effects ?G)"
    by (simp add: g call effects_def)
  from error_prefix_decides_display[where post = ?post and HF_TOKEN = "''hf_x''"
      and messages = messages and mdl = "''m''" and max_retries = 3 and temperature = "8 / 10"
      and max_tokens = 400] call[of messages "8 / 10" 400] sw
  have t: "display_title_results ''Errors to Avoid in Python'' = St_error ''Errors to Avoid in Python''"
    by blast
  let ?B = "generate_blog_content ''hf_x'' ?post ''Python'' ''general topics'' 400 ''m''"
  obtain messages' where b: "?B = query_chat_api ''hf_x'' ?post messages' ''m'' 3 (7 / 10) 800"
    by (simp add: generate_blog_content_def)
  have B: "?B = (Returned Ret_content ''Errors to Avoid in Python'', effects ?B)"
    by (simp add: b call effects_def)
  from error_prefix_decides_display[where post = ?post and HF_TOKEN = "''hf_x''"
      and messages = messages' and mdl = "''m''" and max_retries = 3 and temperature = "7 / 10"
      and max_tokens = 800 and title = "''Python''" and kws = "''general topics''"]
    call[of messages' "7 / 10" 800] sw
  have d: "display_blog_results \<lparr>blog_title = ''Python'',
             blog_content = ''Errors to Avoid in Python'',
             blog_keywords = ''general topics''\<rparr> = St_error ''Errors to Avoid in Python''"
    by blast
  show ?thesis using G t B d by (intro conjI)
qed

end
